theory Spec2Isabelle
  imports Complex_Main
begin

section \<open>Interpolation in a grid of model atmospheres (sme/interpolate\_atmosphere.py)\<close>

text \<open>
  The development follows \<^verbatim>\<open>interp_atmo_pair\<close>, \<^verbatim>\<open>interp_atmo_grid\<close>,
  \<^verbatim>\<open>interp_atmo_constrained\<close> and \<^verbatim>\<open>interp_atmo_func\<close>. Python floats are
  modelled by \<^typ>\<open>real\<close>: the properties below rest on comparisons, list structure and
  control flow, not on rounding. Every \<^verbatim>\<open>raise\<close> and every failing numpy call is a value
  \<open>Inl e\<close> of a sum type; every \<^verbatim>\<open>print\<close> is an entry of a list of diagnostics.
\<close>

subsection \<open>Errors and diagnostics\<close>

text \<open>One constructor per \<^verbatim>\<open>raise ValueError(...)\<close> site of the source, in source order,
  and one for numpy's own ValueError on \<^verbatim>\<open>np.min\<close>/\<^verbatim>\<open>np.max\<close> of an empty array.\<close>

datatype msg =
    NoCommonDepthScale      \<comment> \<open>"atmo1 and atmo2 structures must both contain RHOX or TAU"\<close>
  | BadInterpvar            \<comment> \<open>"interpvar must be 'TAU' (default) or 'RHOX'"\<close>
  | Atmo1Lacks string       \<comment> \<open>"atmo1 does not contain " + vtag\<close>
  | Atmo2Lacks string       \<comment> \<open>"atmo2 does not contain " + vtag\<close>
  | UnstableShift           \<comment> \<open>"unstable shift in temperature"\<close>
  | MonHTooSmall            \<comment> \<open>"requested [M/H] smaller than min grid value"\<close>
  | LoggTooSmall            \<comment> \<open>"requested log(g) smaller than min grid value"\<close>
  | TeffTooLarge            \<comment> \<open>"requested Teff larger than max grid value"\<close>
  | GeomNotValid            \<comment> \<open>"Input ATMO.GEOM='SPH' not valid for requested model."\<close>
  | ZeroSizeReduction       \<comment> \<open>numpy: "zero-size array to reduction operation"\<close>
  | NegativeDimensions      \<comment> \<open>numpy: "negative dimensions are not allowed"\<close>
  | ShapeMismatch           \<comment> \<open>numpy: "operands could not be broadcast together"\<close>

text \<open>\<open>AttributeError\<close> is the access to a field a structure does not have; \<open>TypeError\<close>
  and \<open>RuntimeError\<close> are what \<^verbatim>\<open>curve_fit\<close> raises on too few data points and on a fit
  that does not converge.\<close>

datatype py_error = ValueError msg | IndexError | AttributeError | TypeError | RuntimeError

datatype diag =
    ExtrapolatingMonH       \<comment> \<open>"requested [M/H] larger than max grid value. extrapolating."\<close>
  | ExtrapolatingLogg       \<comment> \<open>"requested log(g) larger than max grid value. extrapolating."\<close>
  | ExtrapolatingTeff       \<comment> \<open>"requested Teff smaller than min grid value. extrapolating."\<close>
  | ModelsInGrid nat        \<comment> \<open>"%i models in grid with [M/H]=..., log(g)=..., and Teff=..."\<close>
  | GeomOverrides string string  \<comment> \<open>"Input ATMO.GEOM='%s' overrides '%s' from grid."\<close>

definition bind_err :: "'e + 'a \<Rightarrow> ('a \<Rightarrow> 'e + 'b) \<Rightarrow> 'e + 'b" where
  "bind_err r f = (case r of Inl e \<Rightarrow> Inl e | Inr a \<Rightarrow> f a)"

subsection \<open>interp\_atmo\_pair: choice of the interpolation variable (lines 110--125)\<close>

text \<open>The keyword argument \<^verbatim>\<open>interpvar\<close> is \<open>None\<close> for Python's \<^verbatim>\<open>None\<close> and
  \<open>Some s\<close> for a string. The signature's default is the empty string
  (\<^verbatim>\<open>interpvar=""\<close>), which is what a call that omits the argument passes.\<close>

definition interpvar_default :: "string option" where
  "interpvar_default = Some []"

definition select_interpvar :: "string list \<Rightarrow> string list \<Rightarrow> string option \<Rightarrow> py_error + string" where
  "select_interpvar tags1 tags2 interpvar =
     (let ok_tau = (''TAU'' \<in> set tags1 \<and> ''TAU'' \<in> set tags2);
          ok_rhox = (''RHOX'' \<in> set tags1 \<and> ''RHOX'' \<in> set tags2)
      in if \<not> ok_tau \<and> \<not> ok_rhox then Inl (ValueError NoCommonDepthScale)
         else
           let iv = (case interpvar of
                       None \<Rightarrow> (if ok_tau then ''TAU'' else ''RHOX'')
                     | Some s \<Rightarrow> s)
           in if iv \<noteq> ''TAU'' \<and> iv \<noteq> ''RHOX'' then Inl (ValueError BadInterpvar)
              else Inr iv)"

subsection \<open>interp\_atmo\_pair: trimming the top of the depth scale (lines 131--161)\<close>

text \<open>The depth values are numpy float64 numbers, and the loop condition
  \<^verbatim>\<open>v[i + 1] / v[i] - 1 <= 0.01\<close> is evaluated in binary64 arithmetic: the quotient and
  the difference are each rounded to the nearest double, and the literal \<^verbatim>\<open>0.01\<close> is the
  double nearest to \<open>1 / 100\<close>. Floating-point arithmetic is not code of the repository; it
  is modelled after IEEE 754: \<open>rne\<close> rounds to the nearest integer, ties to even;
  \<open>ulp x\<close> is the spacing of the doubles at the magnitude of \<open>x\<close>, that is \<open>1 / 2 ^ 52\<close> times the
  power of two at or below \<open>\<bar>x\<bar>\<close>, and \<open>1 / 2 ^ 1074\<close> in the subnormal range; \<open>f64 x\<close> is the
  double nearest to \<open>x\<close>. (Beyond the largest double numpy gives \<open>inf\<close> where \<open>f64\<close> gives a
  large real; the comparison with 0.01 comes out the same.)\<close>

definition rne :: "real \<Rightarrow> int" where
  "rne x = (let f = \<lfloor>x\<rfloor>; d = x - of_int f
            in if d < 1 / 2 then f else if 1 / 2 < d then f + 1 else if even f then f else f + 1)"

primrec ulp_up :: "nat \<Rightarrow> real \<Rightarrow> real \<Rightarrow> real" where
  "ulp_up 0 x u = u"
| "ulp_up (Suc n) x u = (if x < 2 then u else ulp_up n (x / 2) (2 * u))"

primrec ulp_down :: "nat \<Rightarrow> real \<Rightarrow> real \<Rightarrow> real" where
  "ulp_down 0 x u = u"
| "ulp_down (Suc n) x u = (if 1 \<le> x then u else ulp_down n (2 * x) (u / 2))"

definition ulp :: "real \<Rightarrow> real" where
  "ulp x = (if 1 \<le> \<bar>x\<bar> then ulp_up 1023 \<bar>x\<bar> (1 / 2 ^ 52) else ulp_down 1022 \<bar>x\<bar> (1 / 2 ^ 52))"

definition f64 :: "real \<Rightarrow> real" where
  "f64 x = of_int (rne (x / ulp x)) * ulp x"

text \<open>The loop condition for \<open>a = v[i]\<close> and \<open>b = v[i + 1]\<close>. Division by zero does not raise
  in numpy: a positive numerator gives \<open>inf\<close>, zero gives \<open>nan\<close> (both make the comparison
  false) and a negative numerator gives \<open>-inf\<close> (true). HOL's \<open>x / 0 = 0\<close> would say
  otherwise, so the case is written out.\<close>

definition step_small :: "real \<Rightarrow> real \<Rightarrow> bool" where
  "step_small a b = (if a = 0 then b < 0 else f64 (f64 (b / a) - 1) \<le> f64 (1 / 100))"

text \<open>\<^verbatim>\<open>while v[itop + 1] / v[itop] - 1 <= min_d: itop += 1\<close>. Reading \<^verbatim>\<open>v[itop + 1]\<close>
  past the end of the array raises IndexError.\<close>

function trim_top :: "real list \<Rightarrow> nat \<Rightarrow> py_error + nat" where
  "trim_top v itop =
     (if itop + 1 < length v
      then (if step_small (v ! itop) (v ! (itop + 1)) then trim_top v (itop + 1) else Inr itop)
      else Inl IndexError)"
  by pat_completeness auto
termination
  by (relation "measure (\<lambda>(v, itop). length v - itop)") auto

declare trim_top.simps [simp del]

text \<open>Some step at or after \<open>itop\<close> exceeds the minimum fractional step.\<close>

definition has_large_step :: "real list \<Rightarrow> nat \<Rightarrow> bool" where
  "has_large_step v itop = (\<exists>i. itop \<le> i \<and> i + 1 < length v \<and> \<not> step_small (v ! i) (v ! (i + 1)))"

subsection \<open>Atmosphere structures and the grid\<close>

text \<open>An atmosphere structure (a row of \<^verbatim>\<open>atmo_grid\<close>, or the structure built by
  \<^verbatim>\<open>interp_atmo_pair\<close>). The stellar parameters and the depth count are read without
  any test of presence, so they are fields of the record; the vector fields are looked up
  by their upper-case tag (\<^verbatim>\<open>atmo[vtag]\<close>, \<^verbatim>\<open>vtag in tags\<close>) and are kept as an
  association list in field order, as are the remaining scalar fields.\<close>

datatype val = Num real | Txt string

record atmo =
  teff :: real
  logg :: real
  monh :: real
  ndep :: nat
  vecs :: "(string \<times> real list) list"
  others :: "(string \<times> val) list"

text \<open>\<^verbatim>\<open>atmo.dtype.names\<close>.\<close>

definition tags :: "atmo \<Rightarrow> string list" where
  "tags a = [''TEFF'', ''LOGG'', ''MONH'', ''NDEP''] @ map fst (vecs a) @ map fst (others a)"

subsection \<open>numpy reductions and selections\<close>

text \<open>\<^verbatim>\<open>np.min\<close> and \<^verbatim>\<open>np.max\<close> raise ValueError on an empty array.\<close>

definition np_min :: "real list \<Rightarrow> py_error + real" where
  "np_min xs = (if xs = [] then Inl (ValueError ZeroSizeReduction) else Inr (Min (set xs)))"

definition np_max :: "real list \<Rightarrow> py_error + real" where
  "np_max xs = (if xs = [] then Inl (ValueError ZeroSizeReduction) else Inr (Max (set xs)))"

definition np_unique :: "real list \<Rightarrow> real list" where
  "np_unique xs = sort (remdups xs)"

text \<open>\<^verbatim>\<open>np.where(mask)[0]\<close>: the indices at which the mask holds, ascending.\<close>

definition np_where :: "('a \<Rightarrow> bool) \<Rightarrow> 'a list \<Rightarrow> nat list" where
  "np_where P xs = filter (\<lambda>i. P (xs ! i)) [0..<length xs]"

subsection \<open>numpy indexing and elementwise helpers\<close>

text \<open>\<^verbatim>\<open>np.log10\<close> and \<^verbatim>\<open>10.0 ** v\<close>. (On non-positive input numpy returns \<open>-inf\<close> or
  \<open>nan\<close> with a warning; depth scales and physical quantities are positive.)\<close>

definition log10 :: "real \<Rightarrow> real" where
  "log10 x = log 10 x"

definition pow10 :: "real \<Rightarrow> real" where
  "pow10 x = 10 powr x"

text \<open>\<^verbatim>\<open>v[i : j]\<close> with \<open>0 \<le> i\<close> and \<open>0 \<le> j\<close>: numpy clips the bounds to the array.\<close>

definition py_slice :: "'a list \<Rightarrow> nat \<Rightarrow> nat \<Rightarrow> 'a list" where
  "py_slice v i j = drop i (take j v)"

text \<open>\<^verbatim>\<open>v[i]\<close> for a Python integer: a negative index counts from the end.\<close>

definition py_nth :: "'a list \<Rightarrow> int \<Rightarrow> py_error + 'a" where
  "py_nth v i =
     (if 0 \<le> i \<and> i < int (length v) then Inr (v ! nat i)
      else if i < 0 \<and> - int (length v) \<le> i then Inr (v ! nat (int (length v) + i))
      else Inl IndexError)"

text \<open>\<^verbatim>\<open>v[idx]\<close> for an array of indices.\<close>

definition np_take :: "'a list \<Rightarrow> nat list \<Rightarrow> py_error + 'a list" where
  "np_take v idx = (if list_all (\<lambda>i. i < length v) idx then Inr (map (\<lambda>i. v ! i) idx) else Inl IndexError)"

text \<open>\<^verbatim>\<open>np.argmin\<close>: the first index of the minimum.\<close>

definition np_argmin :: "real list \<Rightarrow> py_error + nat" where
  "np_argmin v =
     (if v = [] then Inl (ValueError ZeroSizeReduction)
      else Inr (length (takeWhile (\<lambda>x. x \<noteq> Min (set v)) v)))"

text \<open>\<^verbatim>\<open>np.median\<close> of the three end values.\<close>

definition median3 :: "real \<Rightarrow> real \<Rightarrow> real \<Rightarrow> real" where
  "median3 a b c = sort [a, b, c] ! 1"

text \<open>\<^verbatim>\<open>atmo[tag]\<close> for a vector field.\<close>

definition getvec :: "atmo \<Rightarrow> string \<Rightarrow> py_error + real list" where
  "getvec a tag = (case map_of (vecs a) tag of None \<Rightarrow> Inl AttributeError | Some v \<Rightarrow> Inr v)"

subsection \<open>interp\_atmo\_func (lines 937--993)\<close>

text \<open>Modelled from the spec: \<^verbatim>\<open>scipy.interpolate.interp1d\<close> is a library routine, not code of
  the repository. The spec asks for linear interpolation with extrapolation permitted;
  the definition follows the library's evaluation for \<^verbatim>\<open>kind="linear"\<close> and
  \<^verbatim>\<open>fill_value="extrapolate"\<close>: the knots are sorted by abscissa, the segment of an
  abscissa is found by \<^verbatim>\<open>searchsorted\<close>, clipped to the first and the last segment, and
  the segment's line is evaluated. It is meant for at least two knots with distinct
  abscissae.\<close>

definition searchsorted :: "real list \<Rightarrow> real \<Rightarrow> nat" where
  "searchsorted xs v = length (filter (\<lambda>x. x < v) xs)"

definition interp1d :: "real list \<Rightarrow> real list \<Rightarrow> real \<Rightarrow> real" where
  "interp1d x y v =
     (let kn = sort_key fst (zip x y);
          xs = map fst kn;
          ys = map snd kn;
          hi = min (max (searchsorted xs v) 1) (length xs - 1);
          lo = hi - 1;
          slope = (ys ! hi - ys ! lo) / (xs ! hi - xs ! lo)
      in slope * (v - xs ! lo) + ys ! lo)"

text \<open>\<^verbatim>\<open>interp_atmo_func(x1, par, ndep=None, x2=, y2=[, y1=])\<close>. The output has the length of
  \<open>x1\<close>; only its first \<open>ndep\<close> entries are computed, the others keep the zero of
  \<^verbatim>\<open>np.zeros_like(x1)\<close>. The optional \<open>y1\<close> clips the computed entries.\<close>

definition interp_atmo_func ::
  "real list \<Rightarrow> real list \<Rightarrow> nat option \<Rightarrow> real list \<Rightarrow> real list \<Rightarrow> real list option
     \<Rightarrow> py_error + real list" where
  "interp_atmo_func x1 par ndep_arg x2 y2 y1_arg =
     (let ndep' = (case ndep_arg of None \<Rightarrow> length x1 | Some n \<Rightarrow> n)
      in if length par < 3 then Inl IndexError
         else
           let x2sh = map (\<lambda>x. x + par ! 0) x2;
               y2sh = map (\<lambda>y. y + par ! 1) y2;
               yi = map (interp1d x2sh y2sh) (take ndep' x1)
           in bind_err (np_min yi) (\<lambda>y1min.
              bind_err (np_max yi) (\<lambda>y1max.
              let y1cen = (y1min + y1max) / 2;
                  ys = map (\<lambda>y. y1cen + (1 + par ! 2) * (y - y1cen)) yi
              in bind_err
                   (case y1_arg of
                      None \<Rightarrow> Inr ys
                    | Some y1 \<Rightarrow>
                        bind_err (np_min y1) (\<lambda>lo.
                        bind_err (np_max y1) (\<lambda>hi.
                        Inr (map (\<lambda>y. min (max y lo) hi) ys))))
                   (\<lambda>yc. Inr (yc @ replicate (length x1 - ndep') 0)))))"

subsection \<open>interp\_atmo\_constrained (lines 895--934)\<close>

text \<open>The keyword arguments of the production call: \<^verbatim>\<open>functargs\<close> (a dictionary with
  \<^verbatim>\<open>x2\<close>, \<^verbatim>\<open>y2\<close>, \<^verbatim>\<open>y1\<close>, \<^verbatim>\<open>ndep\<close>, \<^verbatim>\<open>ipar\<close>), \<^verbatim>\<open>parinfo\<close> (one \<^verbatim>\<open>fixed\<close> flag
  per parameter), \<^verbatim>\<open>nprint\<close> and \<^verbatim>\<open>quiet\<close>.\<close>

record functargs =
  fa_x2 :: "real list"
  fa_y2 :: "real list"
  fa_y1 :: "real list"
  fa_ndep :: nat
  fa_ipar :: "real list"

record kwargs =
  kw_functargs :: functargs
  kw_parinfo :: "bool list"
  kw_nprint :: bool
  kw_quiet :: bool

text \<open>\<^verbatim>\<open>scipy.optimize.curve_fit\<close> is a library routine; the model takes it as a
  parameter: from the model function, the data \<open>x\<close>, \<open>y\<close>, the uncertainties \<open>sigma\<close>
  and the starting point \<open>p0\<close> it returns the fitted parameters or raises.\<close>

type_synonym model_fn = "real list \<Rightarrow> real list \<Rightarrow> py_error + real list"

type_synonym fitter =
  "model_fn \<Rightarrow> real list \<Rightarrow> real list \<Rightarrow> real list \<Rightarrow> real list \<Rightarrow> py_error + real list"

text \<open>The function handed to the fitter:
  \<^verbatim>\<open>lambda x, *p: interp_atmo_func(x, p, **kwargs["functargs"])\<close>.\<close>

definition fit_func :: "functargs \<Rightarrow> model_fn" where
  "fit_func fa x p = interp_atmo_func x p (Some (fa_ndep fa)) (fa_x2 fa) (fa_y2 fa) (Some (fa_y1 fa))"

definition interp_atmo_constrained ::
  "fitter \<Rightarrow> real list \<Rightarrow> real list \<Rightarrow> real list \<Rightarrow> real list \<Rightarrow> real list option \<Rightarrow> kwargs
     \<Rightarrow> py_error + (real list \<times> real list)" where
  "interp_atmo_constrained cf x_in y_in err_in par constraints kw =
     (let ndep' = fa_ndep (kw_functargs kw);
          cs = (case constraints of None \<Rightarrow> [] | Some c \<Rightarrow> filter (\<lambda>e. e \<noteq> 0) c);
          nconstraints = length cs;
          x = (if nconstraints > 0 then x_in @ replicate nconstraints 0 else x_in);
          y = (if nconstraints > 0 then y_in @ replicate nconstraints 0 else y_in);
          err = (if nconstraints > 0 then err_in @ cs else err_in);
          func = fit_func (kw_functargs kw)
      in bind_err (cf func x y err par) (\<lambda>popt.
         bind_err (func x popt) (\<lambda>yfit.
         Inr (popt, if nconstraints > 0 then take ndep' yfit else yfit))))"

text \<open>Modelled from the spec: what the fitter minimises is not code of the repository. The
  spec's least-squares objective is the sum of the squares of the residuals
  \<open>(f(x, p) - y) / sigma\<close>, one per data point, which is also what \<^verbatim>\<open>curve_fit\<close>
  documents for a vector \<^verbatim>\<open>sigma\<close>.\<close>

definition residuals :: "model_fn \<Rightarrow> real list \<Rightarrow> real list \<Rightarrow> real list \<Rightarrow> real list \<Rightarrow> py_error + real list" where
  "residuals func x y sigma p =
     bind_err (func x p) (\<lambda>f. Inr (map (\<lambda>(fi, yi, si). (fi - yi) / si) (zip f (zip y sigma))))"

definition chi2 :: "model_fn \<Rightarrow> real list \<Rightarrow> real list \<Rightarrow> real list \<Rightarrow> real list \<Rightarrow> py_error + real" where
  "chi2 func x y sigma p =
     bind_err (residuals func x y sigma p) (\<lambda>r. Inr (sum_list (map (\<lambda>e. e * e) r)))"

text \<open>The data the routine hands to the fitter, and the part of the residual vector that
  belongs to the appended points.\<close>

definition constrained_x :: "real list \<Rightarrow> real list \<Rightarrow> real list" where
  "constrained_x x_in constraints = x_in @ replicate (length (filter (\<lambda>e. e \<noteq> 0) constraints)) 0"

definition constrained_y :: "real list \<Rightarrow> real list \<Rightarrow> real list" where
  "constrained_y y_in constraints = y_in @ replicate (length (filter (\<lambda>e. e \<noteq> 0) constraints)) 0"

definition constrained_err :: "real list \<Rightarrow> real list \<Rightarrow> real list" where
  "constrained_err err_in constraints = err_in @ filter (\<lambda>e. e \<noteq> 0) constraints"

definition penalty_residuals ::
  "functargs \<Rightarrow> real list \<Rightarrow> real list \<Rightarrow> real list \<Rightarrow> real list \<Rightarrow> real list \<Rightarrow> py_error + real list" where
  "penalty_residuals fa x_in y_in err_in constraints p =
     bind_err (residuals (fit_func fa) (constrained_x x_in constraints)
                 (constrained_y y_in constraints) (constrained_err err_in constraints) p)
       (\<lambda>r. Inr (drop (length x_in) r))"

subsection \<open>interp\_atmo\_pair: depth scales, quantities and first guess (lines 131--202)\<close>

text \<open>Lines 131--145 for one atmosphere: the trimmed top index, \<^verbatim>\<open>ndep1 = ibot1 - itop1 + 1\<close>
  as a Python integer, and the logarithmic depth scale \<^verbatim>\<open>log10(v[itop1 : ibot1 + 1])\<close>,
  where \<^verbatim>\<open>ibot1 + 1\<close> is the structure's \<^verbatim>\<open>ndep\<close>.\<close>

definition logvec :: "atmo \<Rightarrow> string \<Rightarrow> nat \<Rightarrow> py_error + real list" where
  "logvec a tag itop = bind_err (getvec a tag) (\<lambda>v. Inr (map log10 (py_slice v itop (ndep a))))"

definition depth_scale :: "string \<Rightarrow> nat \<Rightarrow> atmo \<Rightarrow> py_error + (nat \<times> int \<times> real list)" where
  "depth_scale interpvar itop a =
     bind_err (getvec a interpvar) (\<lambda>v.
     bind_err (trim_top v itop) (\<lambda>itop1.
     Inr (itop1, int (ndep a) - int itop1, map log10 (py_slice v itop1 (ndep a)))))"

text \<open>Lines 169--174.\<close>

definition vtags_of :: "string \<Rightarrow> bool \<Rightarrow> bool \<Rightarrow> string list" where
  "vtags_of interpvar ok_tau ok_rhox =
     [''TEMP'', ''XNE'', ''XNA'', ''RHO'', interpvar]
     @ (if interpvar = ''RHOX'' \<and> ok_tau then [''TAU''] else [])
     @ (if interpvar = ''TAU'' \<and> ok_rhox then [''RHOX''] else [])"

text \<open>Lines 185--186: the index of the temperature closest to the mean of \<^verbatim>\<open>temp[1]\<close> and
  \<^verbatim>\<open>temp[ndep - 2]\<close>.\<close>

definition midpoint :: "real list \<Rightarrow> int \<Rightarrow> py_error + nat" where
  "midpoint temp' ndep' =
     bind_err (py_nth temp' 1) (\<lambda>a.
     bind_err (py_nth temp' (ndep' - 2)) (\<lambda>b.
     np_argmin (map (\<lambda>t. \<bar>t - (a + b) / 2\<bar>) temp')))"

text \<open>Lines 192--198: the constraint vector and the \<^verbatim>\<open>fixed\<close> flags. The Python slice
  \<^verbatim>\<open>parinfo[2:3]\<close> selects index 2 alone.\<close>

definition pair_constraints :: "real list" where
  "pair_constraints = [1 / 2, 0, 0, 0]"

definition pair_parinfo :: "bool list" where
  "pair_parinfo = [False, False, True, False]"

subsection \<open>interp\_atmo\_pair: the fitting loop (lines 208--264)\<close>

text \<open>What the loop reads but does not change, and what it changes: the rows of \<^verbatim>\<open>pars\<close>
  filled so far, the first guess \<^verbatim>\<open>ipar\<close>, the indices \<^verbatim>\<open>igd\<close> of the depth points in
  use, and the number of calls of the fitter that have returned.\<close>

record pair_ctx =
  cx_atmo1 :: atmo
  cx_atmo2 :: atmo
  cx_itop1 :: nat
  cx_itop2 :: nat
  cx_depth1 :: "real list"
  cx_depth2 :: "real list"
  cx_err1 :: "real list"
  cx_ngd :: nat
  cx_trace :: int

record fit_state =
  st_pars :: "real list list"
  st_ipar :: "real list"
  st_igd :: "nat list"
  st_nfits :: nat

text \<open>Lines 257--264, run after the first pass. The restricted index set is stored in
  \<^verbatim>\<open>igd\<close> and its size in a new variable \<^verbatim>\<open>ndg\<close>; the test reads \<^verbatim>\<open>ngd\<close>, which
  still holds \<^verbatim>\<open>ndep1\<close>.\<close>

definition restrict_points ::
  "real list \<Rightarrow> real list \<Rightarrow> real \<Rightarrow> nat \<Rightarrow> py_error + (real list \<times> nat list)" where
  "restrict_points depth1 depth2 shift ngd =
     (let ipar' = [shift, 0, 0, 0]
      in bind_err (np_min depth2) (\<lambda>dmin.
         bind_err (np_max depth2) (\<lambda>dmax.
         let igd' = np_where (\<lambda>d. d \<ge> dmin + ipar' ! 0 \<and> d \<le> dmax + ipar' ! 0) depth1;
             ndg = length igd'
         in if ngd < 2 then Inl (ValueError UnstableShift) else Inr (ipar', igd'))))"

text \<open>The body of the loop for the quantity \<open>vtag\<close> at position \<open>ivtag\<close>.\<close>

definition fit_pass :: "fitter \<Rightarrow> pair_ctx \<Rightarrow> fit_state \<Rightarrow> nat \<Rightarrow> string \<Rightarrow> py_error + fit_state" where
  "fit_pass cf cx st ivtag vtag =
     (if vtag \<notin> set (tags (cx_atmo1 cx)) then Inl (ValueError (Atmo1Lacks vtag))
      else if vtag \<notin> set (tags (cx_atmo2 cx)) then Inl (ValueError (Atmo2Lacks vtag))
      else
        bind_err (logvec (cx_atmo1 cx) vtag (cx_itop1 cx)) (\<lambda>vect1.
        bind_err (logvec (cx_atmo2 cx) vtag (cx_itop2 cx)) (\<lambda>vect2.
        let fa = \<lparr>fa_x2 = cx_depth2 cx, fa_y2 = vect2, fa_y1 = vect1, fa_ndep = cx_ngd cx,
                  fa_ipar = st_ipar st\<rparr>;
            kw = \<lparr>kw_functargs = fa, kw_parinfo = pair_parinfo, kw_nprint = (cx_trace cx \<ge> 1),
                  kw_quiet = True\<rparr>
        in bind_err (np_take (cx_depth1 cx) (st_igd st)) (\<lambda>x_in.
           bind_err (np_take vect1 (st_igd st)) (\<lambda>y_in.
           bind_err (np_take (cx_err1 cx) (st_igd st)) (\<lambda>err_in.
           bind_err (interp_atmo_constrained cf x_in y_in err_in (st_ipar st)
                       (Some pair_constraints) kw) (\<lambda>(popt, vect21).
           if length popt \<noteq> 4 then Inl (ValueError ShapeMismatch)
           else
             let st' = st\<lparr>st_pars := st_pars st @ [popt], st_nfits := st_nfits st + 1\<rparr>
             in if ivtag = 0 then
                  bind_err (restrict_points (cx_depth1 cx) (cx_depth2 cx) (popt ! 0) (cx_ngd cx))
                    (\<lambda>(ipar', igd'). Inr (st'\<lparr>st_ipar := ipar', st_igd := igd'\<rparr>))
                else Inr st')))))))"

fun fit_loop :: "fitter \<Rightarrow> pair_ctx \<Rightarrow> fit_state \<Rightarrow> (nat \<times> string) list \<Rightarrow> py_error + fit_state" where
  "fit_loop cf cx st [] = Inr st"
| "fit_loop cf cx st ((ivtag, vtag) # rest) =
     bind_err (fit_pass cf cx st ivtag vtag) (\<lambda>st'. fit_loop cf cx st' rest)"

subsection \<open>interp\_atmo\_pair: output depth scale and blended vectors (lines 270--326)\<close>

definition output_depth ::
  "real list list \<Rightarrow> nat \<Rightarrow> real \<Rightarrow> int \<Rightarrow> int \<Rightarrow> real list \<Rightarrow> real list \<Rightarrow> py_error + real list" where
  "output_depth pars nvtag fr ndep1 ndep2 depth1 depth2 =
     (let xsh = sum_list (map (\<lambda>p. p ! 0) pars) / real nvtag;
          depth1f = map (\<lambda>d. d - xsh * fr) depth1;
          depth2f = map (\<lambda>d. d + xsh * (1 - fr)) depth2
      in bind_err
           (if ndep1 > ndep2 then Inr depth2f
            else if ndep1 = ndep2 then
              (if length depth1f \<noteq> length depth2f then Inl (ValueError ShapeMismatch)
               else Inr (map2 (\<lambda>a b. a * (1 - fr) + b * fr) depth1f depth2f))
            else Inr depth1f)
           (\<lambda>depth.
              bind_err (np_min depth) (\<lambda>xmin.
              bind_err (np_max depth) (\<lambda>xmax. Inr depth))))"

text \<open>The body of the second loop: both profiles' curves, each shifted by its share of the
  fitted parameters, are resampled on the output depth scale and blended; the end
  correction replaces the entries that lie beyond the deeper end of either shifted scale.\<close>

definition blend_vector ::
  "real \<Rightarrow> int \<Rightarrow> int \<Rightarrow> real list \<Rightarrow> real list \<Rightarrow> real list \<Rightarrow> real list \<Rightarrow> real list \<Rightarrow> real list
     \<Rightarrow> py_error + real list" where
  "blend_vector fr ndep1 ndep2 depth1 depth2 depth par vect1 vect2 =
     (if par = [] then Inl IndexError
      else
        let depth1f = map (\<lambda>d. d - par ! 0 * fr) depth1;
            depth2f = map (\<lambda>d. d + par ! 0 * (1 - fr)) depth2
        in bind_err (np_min depth1f) (\<lambda>x1min.
           bind_err (np_max depth1f) (\<lambda>x1max.
           bind_err (np_min depth2f) (\<lambda>x2min.
           bind_err (np_max depth2f) (\<lambda>x2max.
           let iup = map (\<lambda>d. d > x1max \<or> d > x2max) depth;
               nup = length (filter id iup);
               checkup = (nup \<ge> 1 \<and> \<bar>fr - 1 / 2\<bar> \<le> 1 / 2 \<and> ndep1 = ndep2)
           in bind_err (interp_atmo_func depth (map (\<lambda>p. - fr * p) par) None depth1 vect1 None)
                (\<lambda>vect1f.
              bind_err (interp_atmo_func depth (map (\<lambda>p. (1 - fr) * p) par) None depth2 vect2 None)
                (\<lambda>vect2f.
              let vect = map2 (\<lambda>a b. (1 - fr) * a + fr * b) vect1f vect2f
              in bind_err (py_nth vect1 (ndep1 - 1)) (\<lambda>e1.
                 bind_err (py_nth vect (int (length depth) - 1)) (\<lambda>ev.
                 bind_err (py_nth vect2 (ndep2 - 1)) (\<lambda>e2.
                 if checkup \<and> median3 e1 ev e2 \<noteq> ev
                    \<and> (\<bar>e1 - 42 / 10\<bar> < 1 / 10 \<or> \<bar>e2 - 42 / 10\<bar> < 1 / 10)
                 then Inr (map (\<lambda>(up, v, v1, v2). if up then (if x1max < x2max then v2 else v1) else v)
                             (zip iup (zip vect (zip vect1f vect2f))))
                 else Inr vect))))))))))"

fun blend_loop ::
  "atmo \<Rightarrow> atmo \<Rightarrow> nat \<Rightarrow> nat \<Rightarrow> real \<Rightarrow> int \<Rightarrow> int \<Rightarrow> real list \<Rightarrow> real list \<Rightarrow> real list
     \<Rightarrow> (string \<times> real list) list \<Rightarrow> py_error + real list list" where
  "blend_loop a1 a2 itop1 itop2 fr ndep1 ndep2 depth1 depth2 depth [] = Inr []"
| "blend_loop a1 a2 itop1 itop2 fr ndep1 ndep2 depth1 depth2 depth ((vtag, par) # rest) =
     bind_err (logvec a1 vtag itop1) (\<lambda>vect1.
     bind_err (logvec a2 vtag itop2) (\<lambda>vect2.
     bind_err (blend_vector fr ndep1 ndep2 depth1 depth2 depth par vect1 vect2) (\<lambda>vect.
     bind_err (blend_loop a1 a2 itop1 itop2 fr ndep1 ndep2 depth1 depth2 depth rest) (\<lambda>vects.
     Inr (vect # vects)))))"

subsection \<open>interp\_atmo\_grid: the three bracket searches (lines 577--692)\<close>

text \<open>A step of the search returns its value together with the diagnostics it printed, or
  the error it raised.\<close>

type_synonym 'a res = "py_error + ('a \<times> diag list)"

definition bind_res :: "'a res \<Rightarrow> ('a \<Rightarrow> 'b res) \<Rightarrow> 'b res" where
  "bind_res r f =
     (case r of
        Inl e \<Rightarrow> Inl e
      | Inr (a, d) \<Rightarrow> (case f a of Inl e \<Rightarrow> Inl e | Inr (b, d') \<Rightarrow> Inr (b, d @ d')))"

definition lift_res :: "py_error + 'a \<Rightarrow> 'a res" where
  "lift_res r = (case r of Inl e \<Rightarrow> Inl e | Inr a \<Rightarrow> Inr (a, []))"

text \<open>A \<^verbatim>\<open>for\<close> loop whose body may raise: the first error ends it.\<close>

fun map_res :: "('a \<Rightarrow> 'b res) \<Rightarrow> 'a list \<Rightarrow> ('b list) res" where
  "map_res f [] = Inr ([], [])"
| "map_res f (x # xs) =
     bind_res (f x) (\<lambda>y. bind_res (map_res f xs) (\<lambda>ys. Inr (y # ys, [])))"

text \<open>The metallicity bracket (lines 579--602).\<close>

definition monh_bracket :: "real list \<Rightarrow> real \<Rightarrow> (real list) res" where
  "monh_bracket Mlist MonH =
     bind_res (lift_res (np_min Mlist)) (\<lambda>Mmin.
     bind_res (lift_res (np_max Mlist)) (\<lambda>Mmax.
     bind_res (Inr ((), if MonH > Mmax then [ExtrapolatingMonH] else [])) (\<lambda>_.
     if MonH < Mmin then Inl (ValueError MonHTooSmall)
     else if MonH \<le> Mmax then
       bind_res (lift_res (np_max (filter (\<lambda>m. m \<le> MonH) Mlist))) (\<lambda>Mlo.
       bind_res (lift_res (np_min (filter (\<lambda>m. m \<ge> MonH) Mlist))) (\<lambda>Mup.
       Inr ([Mlo, Mup], [])))
     else
       bind_res (lift_res (np_max (filter (\<lambda>m. m < Mmax) Mlist))) (\<lambda>Mlo.
       Inr ([Mlo, Mmax], [])))))"

text \<open>The gravity bracket at one metallicity (lines 613--638).\<close>

definition logg_bracket :: "real list \<Rightarrow> real \<Rightarrow> (real list) res" where
  "logg_bracket Glist logg_t =
     bind_res (lift_res (np_min Glist)) (\<lambda>Gmin.
     bind_res (lift_res (np_max Glist)) (\<lambda>Gmax.
     bind_res (Inr ((), if logg_t > Gmax then [ExtrapolatingLogg] else [])) (\<lambda>_.
     if logg_t < Gmin then Inl (ValueError LoggTooSmall)
     else if logg_t \<le> Gmax then
       bind_res (lift_res (np_max (filter (\<lambda>g. g \<le> logg_t) Glist))) (\<lambda>Glo.
       bind_res (lift_res (np_min (filter (\<lambda>g. g \<ge> logg_t) Glist))) (\<lambda>Gup.
       Inr ([Glo, Gup], [])))
     else
       bind_res (lift_res (np_max (filter (\<lambda>g. g < Gmax) Glist))) (\<lambda>Glo.
       Inr ([Glo, Gmax], [])))))"

text \<open>The temperature bracket at one metallicity and gravity (lines 660--681).\<close>

definition teff_bracket :: "real list \<Rightarrow> real \<Rightarrow> (real list) res" where
  "teff_bracket Tlist Teff =
     bind_res (lift_res (np_min Tlist)) (\<lambda>Tmin.
     bind_res (lift_res (np_max Tlist)) (\<lambda>Tmax.
     if Teff > Tmax then Inl (ValueError TeffTooLarge)
     else
       bind_res (Inr ((), if Teff < Tmin then [ExtrapolatingTeff] else [])) (\<lambda>_.
       if Teff > Tmin then
         bind_res (lift_res (np_max (filter (\<lambda>t. t \<le> Teff) Tlist))) (\<lambda>Tlo.
         bind_res (lift_res (np_min (filter (\<lambda>t. t \<ge> Teff) Tlist))) (\<lambda>Tup.
         Inr ([Tlo, Tup], [])))
       else
         bind_res (lift_res (np_min (filter (\<lambda>t. t > Tmin) Tlist))) (\<lambda>Tup.
         Inr ([Tmin, Tup], [])))))"

text \<open>The unique gravities of the models on a metallicity boundary, and the unique
  temperatures of the models on a joint boundary.\<close>

definition Glist_at :: "atmo list \<Rightarrow> real \<Rightarrow> real list" where
  "Glist_at grid M = np_unique (map logg (filter (\<lambda>a. monh a = M) grid))"

definition Tlist_at :: "atmo list \<Rightarrow> real \<Rightarrow> real \<Rightarrow> real list" where
  "Tlist_at grid M G = np_unique (map teff (filter (\<lambda>a. monh a = M \<and> logg a = G) grid))"

text \<open>The brackets of a call. \<open>Mb ! iMb\<close>, \<open>Gb ! iMb ! iGb\<close> and \<open>Tb_at Tb iMb iGb ! iTb\<close>
  are the source's \<^verbatim>\<open>Mb[iMb]\<close>, \<^verbatim>\<open>Gb[iMb, iGb]\<close> and \<^verbatim>\<open>Tb[iMb, iGb, iTb]\<close>. The
  temperature brackets are kept in the order the loops compute them: \<^verbatim>\<open>iGb\<close> outside,
  \<^verbatim>\<open>iMb\<close> inside.\<close>

definition Tb_at :: "real list list \<Rightarrow> nat \<Rightarrow> nat \<Rightarrow> real list" where
  "Tb_at Tb iMb iGb = Tb ! (2 * iGb + iMb)"

definition find_brackets ::
  "atmo list \<Rightarrow> real \<Rightarrow> real \<Rightarrow> real \<Rightarrow> (real list \<times> real list list \<times> real list list) res" where
  "find_brackets grid Teff logg_t MonH =
     bind_res (monh_bracket (np_unique (map monh grid)) MonH) (\<lambda>Mb.
     bind_res (map_res (\<lambda>iMb. logg_bracket (Glist_at grid (Mb ! iMb)) logg_t) [0, 1]) (\<lambda>Gb.
     bind_res (map_res (\<lambda>(iGb, iMb). teff_bracket (Tlist_at grid (Mb ! iMb) (Gb ! iMb ! iGb)) Teff)
                 [(0, 0), (0, 1), (1, 0), (1, 1)]) (\<lambda>Tb.
     Inr ((Mb, Gb, Tb), []))))"

subsection \<open>interp\_atmo\_grid: the eight corner models (lines 694--711)\<close>

text \<open>The body of the innermost loop: the indices of the grid entries that match the key,
  a diagnostic unless exactly one matches, and \<^verbatim>\<open>iwhr[0]\<close>, which raises IndexError on an
  empty selection.\<close>

definition matching :: "atmo list \<Rightarrow> real \<Rightarrow> real \<Rightarrow> real \<Rightarrow> nat list" where
  "matching grid T G M = np_where (\<lambda>a. teff a = T \<and> logg a = G \<and> monh a = M) grid"

definition corner_index :: "atmo list \<Rightarrow> real \<Rightarrow> real \<Rightarrow> real \<Rightarrow> nat res" where
  "corner_index grid T G M =
     (let iwhr = matching grid T G M;
          nwhr = length iwhr;
          d = (if nwhr \<noteq> 1 then [ModelsInGrid nwhr] else [])
      in case iwhr of [] \<Rightarrow> Inl IndexError | i # _ \<Rightarrow> Inr (i, d))"

text \<open>The loops run \<^verbatim>\<open>iTb\<close>, \<^verbatim>\<open>iGb\<close>, \<^verbatim>\<open>iMb\<close> from the outside in; \<open>icor_at icor iMb iGb iTb\<close>
  is the source's \<^verbatim>\<open>icor[iMb, iGb, iTb]\<close>.\<close>

definition corner_order :: "(nat \<times> nat \<times> nat) list" where
  "corner_order = [(0, 0, 0), (0, 0, 1), (0, 1, 0), (0, 1, 1), (1, 0, 0), (1, 0, 1), (1, 1, 0), (1, 1, 1)]"

definition icor_at :: "nat list \<Rightarrow> nat \<Rightarrow> nat \<Rightarrow> nat \<Rightarrow> nat" where
  "icor_at icor iMb iGb iTb = icor ! (4 * iTb + 2 * iGb + iMb)"

definition find_corners ::
  "atmo list \<Rightarrow> real list \<Rightarrow> real list list \<Rightarrow> real list list \<Rightarrow> (nat list) res" where
  "find_corners grid Mb Gb Tb =
     map_res (\<lambda>(iTb, iGb, iMb).
                corner_index grid (Tb_at Tb iMb iGb ! iTb) (Gb ! iMb ! iGb) (Mb ! iMb))
       corner_order"

text \<open>Two small grids used to evaluate the search: a single model, and three models of
  which the first two carry the same key.\<close>

definition grid_single :: "atmo list" where
  "grid_single = [\<lparr>teff = 5000, logg = 4, monh = 0, ndep = 0, vecs = [], others = []\<rparr>]"

definition grid_dup :: "atmo list" where
  "grid_dup =
     [\<lparr>teff = 5000, logg = 4, monh = 0, ndep = 0, vecs = [], others = []\<rparr>,
      \<lparr>teff = 5000, logg = 4, monh = 0, ndep = 0, vecs = [], others = []\<rparr>,
      \<lparr>teff = 6000, logg = 4, monh = 0, ndep = 0, vecs = [], others = []\<rparr>]"

subsection \<open>interp\_atmo\_grid: geometry of the result (lines 851--884)\<close>

text \<open>The geometry computed from the grid: spherical when the grid has the fields RADIUS and
  HEIGHT and every corner model has a radius above 1, plane-parallel otherwise. \<open>radii\<close>
  are the radii of the eight corner models (\<^verbatim>\<open>atmo_grid[icor].radius\<close>).\<close>

definition grid_geom :: "string list \<Rightarrow> real list \<Rightarrow> string" where
  "grid_geom gtags radii =
     (if ''RADIUS'' \<in> set gtags \<and> Min (set radii) > 1 \<and> ''HEIGHT'' \<in> set gtags
      then ''SPH'' else ''PP'')"

text \<open>Lines 873--884. \<open>atags\<close> are the upper-cased field names of the caller's structure,
  \<open>in_geom\<close> the value of its \<^verbatim>\<open>geom\<close> field and \<open>geom\<close> the computed geometry. The
  result is the value of \<^verbatim>\<open>atmo.geom\<close> after line 884, with the diagnostics printed.\<close>

definition set_geom :: "string list \<Rightarrow> string \<Rightarrow> string \<Rightarrow> string res" where
  "set_geom atags in_geom geom =
     bind_res
       (if ''GEOM'' \<in> set atags then
          (if in_geom \<noteq> [] \<and> in_geom \<noteq> geom then
             (if in_geom = ''SPH'' then Inl (ValueError GeomNotValid)
              else Inr ((), [GeomOverrides in_geom geom]))
           else Inr ((), []))
        else Inr ((), []))
       (\<lambda>_. Inr (geom, []))"

subsection \<open>interp\_atmo\_pair: the output structure (lines 356--391)\<close>

fun map_err :: "('a \<Rightarrow> py_error + 'b) \<Rightarrow> 'a list \<Rightarrow> py_error + 'b list" where
  "map_err f [] = Inr []"
| "map_err f (x # xs) = bind_err (f x) (\<lambda>y. bind_err (map_err f xs) (\<lambda>ys. Inr (y # ys)))"

definition stags :: "string list" where
  "stags = [''TEFF'', ''LOGG'', ''MONH'', ''VTURB'', ''LONH'', ''ABUND'']"

text \<open>\<^verbatim>\<open>(1 - frac) * v1 + frac * v2\<close> on two arrays.\<close>

definition blend_vec :: "real \<Rightarrow> real list \<Rightarrow> real list \<Rightarrow> py_error + real list" where
  "blend_vec fr v1 v2 =
     (if length v1 \<noteq> length v2 then Inl (ValueError ShapeMismatch)
      else Inr (map2 (\<lambda>a b. (1 - fr) * a + fr * b) v1 v2))"

text \<open>\<^verbatim>\<open>[i for i in range(nvtag) if tag == vtags[i]][0]\<close>.\<close>

definition vtag_index :: "string list \<Rightarrow> string \<Rightarrow> nat" where
  "vtag_index vtags tag = length (takeWhile (\<lambda>t. t \<noteq> tag) vtags)"

text \<open>The body of the loop over \<^verbatim>\<open>tags1\<close> for a vector field of \<^verbatim>\<open>atmo1\<close>.\<close>

definition out_vec ::
  "atmo \<Rightarrow> atmo \<Rightarrow> real \<Rightarrow> string list \<Rightarrow> real list list \<Rightarrow> nat \<Rightarrow> nat \<Rightarrow> string \<times> real list
     \<Rightarrow> py_error + (string \<times> real list)" where
  "out_vec a1 a2 fr vtags vects ndep_out ndep_orig tv =
     (let tag = fst tv;
          v0 = snd tv;
          v1 = (if length v0 = ndep_orig \<and> tag \<noteq> ''ABUND'' then take ndep_out v0 else v0);
          v2 = (if tag \<in> set vtags then map pow10 (vects ! vtag_index vtags tag) else v1)
      in bind_err
           (if tag \<in> set stags then
              (if tag \<in> set (tags a2) then bind_err (getvec a2 tag) (blend_vec fr v0) else Inr v0)
            else Inr v2)
           (\<lambda>v3.
         bind_err
           (if tag = ''ABUND'' then bind_err (getvec a2 tag) (blend_vec fr v0) else Inr v3)
           (\<lambda>v4. Inr (tag, v4))))"

text \<open>The same for a scalar field other than TEFF, LOGG, MONH and NDEP.\<close>

definition out_other :: "atmo \<Rightarrow> real \<Rightarrow> string \<times> val \<Rightarrow> py_error + (string \<times> val)" where
  "out_other a2 fr tv =
     (let tag = fst tv; v0 = snd tv
      in if tag \<in> set stags \<and> tag \<in> set (tags a2) then
           (case (v0, map_of (others a2) tag) of
              (Num x, Some (Num y)) \<Rightarrow> Inr (tag, Num ((1 - fr) * x + fr * y))
            | _ \<Rightarrow> Inl TypeError)
         else Inr (tag, v0))"

definition build_atmo ::
  "atmo \<Rightarrow> atmo \<Rightarrow> real \<Rightarrow> string list \<Rightarrow> real list list \<Rightarrow> nat \<Rightarrow> py_error + atmo" where
  "build_atmo a1 a2 fr vtags vects ndep_out =
     bind_err (getvec a1 ''TEMP'') (\<lambda>t.
     bind_err (map_err (out_vec a1 a2 fr vtags vects ndep_out (length t)) (vecs a1)) (\<lambda>vs.
     bind_err (map_err (out_other a2 fr) (others a1)) (\<lambda>os.
     Inr \<lparr>teff = (1 - fr) * teff a1 + fr * teff a2,
          logg = (1 - fr) * logg a1 + fr * logg a2,
          monh = (1 - fr) * monh a1 + fr * monh a2,
          ndep = ndep_out, vecs = vs, others = os\<rparr>)))"

subsection \<open>interp\_atmo\_pair\<close>

text \<open>The whole routine. Its result is the interpolated structure together with the number
  of fitter calls it made.\<close>

definition interp_atmo_pair ::
  "fitter \<Rightarrow> atmo \<Rightarrow> atmo \<Rightarrow> real \<Rightarrow> string option \<Rightarrow> nat \<Rightarrow> int \<Rightarrow> py_error + (atmo \<times> nat)" where
  "interp_atmo_pair cf atmo1 atmo2 fr interpvar itop trace =
     (let tags1 = tags atmo1;
          tags2 = tags atmo2;
          ok_tau = (''TAU'' \<in> set tags1 \<and> ''TAU'' \<in> set tags2);
          ok_rhox = (''RHOX'' \<in> set tags1 \<and> ''RHOX'' \<in> set tags2)
      in bind_err (select_interpvar tags1 tags2 interpvar) (\<lambda>iv.
         bind_err (depth_scale iv itop atmo1) (\<lambda>(itop1, ndep1, depth1).
         bind_err (depth_scale iv itop atmo2) (\<lambda>(itop2, ndep2, depth2).
         let vtags = vtags_of iv ok_tau ok_rhox;
             nvtag = length vtags
         in if ndep1 < 0 then Inl (ValueError NegativeDimensions)
            else
              bind_err (logvec atmo1 ''TEMP'' itop1) (\<lambda>temp1.
              bind_err (logvec atmo2 ''TEMP'' itop2) (\<lambda>temp2.
              bind_err (midpoint temp1 ndep1) (\<lambda>mid1.
              bind_err (midpoint temp2 ndep2) (\<lambda>mid2.
              bind_err (py_nth depth1 (int mid1)) (\<lambda>d1m.
              bind_err (py_nth depth2 (int mid2)) (\<lambda>d2m.
              bind_err (py_nth temp1 (int mid1)) (\<lambda>t1m.
              bind_err (py_nth temp2 (int mid2)) (\<lambda>t2m.
              let cx = \<lparr>cx_atmo1 = atmo1, cx_atmo2 = atmo2, cx_itop1 = itop1, cx_itop2 = itop2,
                        cx_depth1 = depth1, cx_depth2 = depth2,
                        cx_err1 = replicate (nat ndep1) (5 / 100), cx_ngd = nat ndep1,
                        cx_trace = trace\<rparr>;
                  st0 = \<lparr>st_pars = [], st_ipar = [d1m - d2m, t1m - t2m, 0, 0],
                         st_igd = [0..<nat ndep1], st_nfits = 0\<rparr>
              in bind_err (fit_loop cf cx st0 (zip [0..<nvtag] vtags)) (\<lambda>st.
                 bind_err (output_depth (st_pars st) nvtag fr ndep1 ndep2 depth1 depth2) (\<lambda>depth.
                 bind_err (blend_loop atmo1 atmo2 itop1 itop2 fr ndep1 ndep2 depth1 depth2 depth
                             (zip vtags (st_pars st))) (\<lambda>vects.
                 bind_err (build_atmo atmo1 atmo2 fr vtags vects (length depth)) (\<lambda>atmo.
                 Inr (atmo, st_nfits st)))))))))))))))))"

text \<open>\<^verbatim>\<open>curve_fit\<close> is called without bounds and without a method, so it runs the
  Levenberg-Marquardt routine \<^verbatim>\<open>leastsq\<close>, which refuses a problem with fewer data points
  than parameters (it raises TypeError: the input vector length must not exceed the
  output vector length). \<open>lm_rule\<close> says that a fitter obeys this rule: on such a problem
  it raises.\<close>

definition lm_rule :: "fitter \<Rightarrow> bool" where
  "lm_rule cf = (\<forall>func x y sigma p0. length x < length p0 \<longrightarrow> (\<exists>e. cf func x y sigma p0 = Inl e))"

text \<open>A fitter that obeys the rule and otherwise returns its starting point. On data the
  starting point already fits with zero residual it returns what a least-squares
  minimiser returns; it is used to evaluate the routines on such data.\<close>

definition fit_at_start :: fitter where
  "fit_at_start func x y sigma p0 = (if length x < length p0 then Inl TypeError else Inr p0)"


subsection \<open>interp\_atmo\_grid: blending the corner models (lines 750--837)\<close>

text \<open>\<^verbatim>\<open>mfrac = 0 if m0 == m1 else (MonH - m0) / (m1 - m0)\<close>, and likewise for gravity and
  temperature.\<close>

definition blend_fraction :: "real \<Rightarrow> real \<Rightarrow> real \<Rightarrow> real" where
  "blend_fraction v0 v1 target = (if v0 = v1 then 0 else (target - v0) / (v1 - v0))"

text \<open>One of the four blends along metallicity: the corner models at \<^verbatim>\<open>icor[0, iGb, iTb]\<close>
  and \<^verbatim>\<open>icor[1, iGb, iTb]\<close>, with \<^verbatim>\<open>itop=1\<close>.\<close>

definition metal_pair ::
  "fitter \<Rightarrow> atmo list \<Rightarrow> nat list \<Rightarrow> real \<Rightarrow> string \<Rightarrow> int \<Rightarrow> nat \<Rightarrow> nat \<Rightarrow> py_error + (atmo \<times> nat)" where
  "metal_pair cf grid icor MonH interpvar trace iGb iTb =
     (let a0 = grid ! icor_at icor 0 iGb iTb;
          a1 = grid ! icor_at icor 1 iGb iTb;
          mfrac = blend_fraction (monh a0) (monh a1) MonH
      in interp_atmo_pair cf a0 a1 mfrac (Some interpvar) 1 (trace - 1))"

text \<open>The seven blends: four along metallicity, two along gravity, one along temperature.
  The result is the last structure and the fitter calls of all seven.\<close>

definition blend_corners ::
  "fitter \<Rightarrow> atmo list \<Rightarrow> nat list \<Rightarrow> real \<Rightarrow> real \<Rightarrow> real \<Rightarrow> string \<Rightarrow> int \<Rightarrow> py_error + (atmo \<times> nat)" where
  "blend_corners cf grid icor Teff logg_t MonH interpvar trace =
     bind_err (metal_pair cf grid icor MonH interpvar trace 0 0) (\<lambda>(atmo00, n1).
     bind_err (metal_pair cf grid icor MonH interpvar trace 1 0) (\<lambda>(atmo01, n2).
     bind_err (metal_pair cf grid icor MonH interpvar trace 0 1) (\<lambda>(atmo10, n3).
     bind_err (metal_pair cf grid icor MonH interpvar trace 1 1) (\<lambda>(atmo11, n4).
     bind_err (interp_atmo_pair cf atmo00 atmo01
                 (blend_fraction (logg atmo00) (logg atmo01) logg_t) (Some interpvar) 0 (trace - 1))
       (\<lambda>(atmo0, n5).
     bind_err (interp_atmo_pair cf atmo10 atmo11
                 (blend_fraction (logg atmo10) (logg atmo11) logg_t) (Some interpvar) 0 (trace - 1))
       (\<lambda>(atmo1, n6).
     bind_err (interp_atmo_pair cf atmo0 atmo1
                 (blend_fraction (teff atmo0) (teff atmo1) Teff) (Some interpvar) 0 (trace - 1))
       (\<lambda>(krz, n7). Inr (krz, n1 + n2 + n3 + n4 + n5 + n6 + n7))))))))"

subsection \<open>interp\_atmo\_grid: the returned structure (lines 864--892)\<close>

text \<open>The caller's structure \<^verbatim>\<open>atmo_in\<close> is an object whose attributes are set by name;
  it is a map from upper-case field names to values. \<open>fields_of\<close> lists the fields of the
  interpolation result \<^verbatim>\<open>krz\<close> in the order of \<^verbatim>\<open>krz.names\<close>.\<close>

datatype fval = FNum real | FCnt nat | FVec "real list" | FTxt string

type_synonym sme_atmo = "string \<rightharpoonup> fval"

definition fields_of :: "atmo \<Rightarrow> (string \<times> fval) list" where
  "fields_of a =
     [(''TEFF'', FNum (teff a)), (''LOGG'', FNum (logg a)), (''MONH'', FNum (monh a)),
      (''NDEP'', FCnt (ndep a))]
     @ map (\<lambda>tv. (fst tv, FVec (snd tv))) (vecs a)
     @ map (\<lambda>tv. (fst tv, case snd tv of Num x \<Rightarrow> FNum x | Txt t \<Rightarrow> FTxt t)) (others a)"

definition discard :: "string list" where
  "discard = [''MODTYP'', ''SPHERE'', ''NDEP'']"

text \<open>Lines 886--890: every field of \<^verbatim>\<open>krz\<close> that is not discarded is set on the output.\<close>

definition copy_fields :: "atmo \<Rightarrow> sme_atmo \<Rightarrow> sme_atmo" where
  "copy_fields krz atmo' =
     fold (\<lambda>tv m. if fst tv \<notin> set discard then m(fst tv \<mapsto> snd tv) else m) (fields_of krz) atmo'"

text \<open>Lines 864--892. \<open>depth\<close> and \<open>interp\<close> are the depth and interpolation variables
  resolved at the head of the routine, \<open>geom\<close> the computed geometry. (A \<^verbatim>\<open>geom\<close>
  attribute that is not a string is outside the model.)\<close>

definition finish_grid ::
  "sme_atmo \<Rightarrow> string list \<Rightarrow> atmo \<Rightarrow> string \<Rightarrow> string \<Rightarrow> string \<Rightarrow> sme_atmo res" where
  "finish_grid atmo_in atags krz depth interp geom =
     (let atmo' = atmo_in(''DEPTH'' \<mapsto> FTxt depth, ''INTERP'' \<mapsto> FTxt interp)
      in bind_res (set_geom atags (case atmo' ''GEOM'' of Some (FTxt g) \<Rightarrow> g | _ \<Rightarrow> []) geom) (\<lambda>g.
         Inr (copy_fields krz (atmo'(''GEOM'' \<mapsto> FTxt g)), [])))"

text \<open>A straight-line example: the profile to be shifted is the line \<open>y = x\<close> on three
  depth points, the fit target is the line \<open>y = 2 x\<close>.\<close>

definition fa_line :: functargs where
  "fa_line = \<lparr>fa_x2 = [0, 1, 2], fa_y2 = [0, 1, 2], fa_y1 = [0, 2, 4], fa_ndep = 3,
              fa_ipar = [0, 0, 0, 0]\<rparr>"

text \<open>Two atmospheres of three depth points used to evaluate \<^verbatim>\<open>interp_atmo_pair\<close>. Their
  temperatures lie on one line in the logarithmic depth, but the second covers half the
  depth range of the first; \<open>cx_wn\<close> and \<open>st_wn\<close> are the context and the initial state
  the routine reaches for this pair with \<^verbatim>\<open>interpvar="RHOX"\<close> and \<^verbatim>\<open>itop=0\<close>.\<close>

definition atmo_wide :: atmo where
  "atmo_wide = \<lparr>teff = 4000, logg = 4, monh = 0, ndep = 3,
     vecs = [(''RHOX'', map pow10 [0, 2, 4]), (''TEMP'', map pow10 [7 / 2, 37 / 10, 39 / 10]),
             (''XNE'', map pow10 [11, 12, 13]), (''XNA'', map pow10 [15, 16, 17]),
             (''RHO'', map pow10 [-9, -8, -7])],
     others = []\<rparr>"

definition atmo_narrow :: atmo where
  "atmo_narrow = \<lparr>teff = 4100, logg = 4, monh = 0, ndep = 3,
     vecs = [(''RHOX'', map pow10 [0, 1, 2]), (''TEMP'', map pow10 [18 / 5, 37 / 10, 19 / 5]),
             (''XNE'', map pow10 [12, 25 / 2, 13]), (''XNA'', map pow10 [16, 33 / 2, 17]),
             (''RHO'', map pow10 [-8, - (15 / 2), -7])],
     others = []\<rparr>"

definition cx_wn :: pair_ctx where
  "cx_wn = \<lparr>cx_atmo1 = atmo_wide, cx_atmo2 = atmo_narrow, cx_itop1 = 0, cx_itop2 = 0,
             cx_depth1 = [0, 2, 4], cx_depth2 = [0, 1, 2],
             cx_err1 = replicate 3 (5 / 100), cx_ngd = 3, cx_trace = 0\<rparr>"

definition st_wn :: fit_state where
  "st_wn = \<lparr>st_pars = [], st_ipar = [1, 0, 0, 0], st_igd = [0, 1, 2], st_nfits = 0\<rparr>"

text \<open>A grid of two models that differ in temperature only, with four depth points each,
  and what \<^verbatim>\<open>interp_atmo_pair\<close> reaches when it blends one of them with itself
  (\<^verbatim>\<open>interpvar="RHOX"\<close>, \<^verbatim>\<open>itop=1\<close>): the context and the states of the fitting loop, and
  the structure returned.\<close>

definition node_model :: "real \<Rightarrow> atmo" where
  "node_model t = \<lparr>teff = t, logg = 4, monh = 0, ndep = 4,
     vecs = [(''RHOX'', map pow10 [-1, 0, 1, 2]), (''TEMP'', map pow10 [17 / 5, 7 / 2, 18 / 5, 37 / 10]),
             (''XNE'', map pow10 [10, 11, 12, 13]), (''XNA'', map pow10 [14, 15, 16, 17]),
             (''RHO'', map pow10 [-10, -9, -8, -7])],
     others = []\<rparr>"


definition cx_node :: "real \<Rightarrow> pair_ctx" where
  "cx_node t = \<lparr>cx_atmo1 = node_model t, cx_atmo2 = node_model t, cx_itop1 = 1, cx_itop2 = 1,
             cx_depth1 = [0, 1, 2], cx_depth2 = [0, 1, 2],
             cx_err1 = replicate 3 (5 / 100), cx_ngd = 3, cx_trace = - 1\<rparr>"

definition st_node :: "real list list \<Rightarrow> nat \<Rightarrow> fit_state" where
  "st_node ps n = \<lparr>st_pars = ps, st_ipar = [0, 0, 0, 0], st_igd = [0, 1, 2], st_nfits = n\<rparr>"

definition node_result :: "real \<Rightarrow> atmo" where
  "node_result t = \<lparr>teff = t, logg = 4, monh = 0, ndep = 3,
          vecs = [(''RHOX'', map pow10 [0, 1, 2]), (''TEMP'', map pow10 [7 / 2, 18 / 5, 37 / 10]),
                  (''XNE'', map pow10 [11, 12, 13]), (''XNA'', map pow10 [15, 16, 17]),
                  (''RHO'', map pow10 [-9, -8, -7])],
          others = []\<rparr>"

text \<open>Lines 169--174 for a call: the quantities \<^verbatim>\<open>vtags\<close> that are fitted and blended, from
  the interpolation variable and the tags of the two structures.\<close>

definition pair_vtags :: "atmo \<Rightarrow> atmo \<Rightarrow> string \<Rightarrow> string list" where
  "pair_vtags a1 a2 iv' =
     vtags_of iv' (''TAU'' \<in> set (tags a1) \<and> ''TAU'' \<in> set (tags a2))
       (''RHOX'' \<in> set (tags a1) \<and> ''RHOX'' \<in> set (tags a2))"

section \<open>Properties\<close>

subsection \<open>Top trimming\<close>

lemma ulp_up_numeral:
  "ulp_up (numeral k) x u = (if x < 2 then u else ulp_up (pred_numeral k) (x / 2) (2 * u))"
  by (simp add: numeral_eq_Suc)

lemma ulp_down_numeral:
  "ulp_down (numeral k) x u = (if 1 \<le> x then u else ulp_down (pred_numeral k) (2 * x) (u / 2))"
  by (simp add: numeral_eq_Suc)

lemmas f64_eval = f64_def ulp_def ulp_up_numeral ulp_down_numeral rne_def Let_def

text \<open>The step from 100 to 101: the quotient rounds to \<open>1.0100000000000000089\<close>, the
  difference is \<open>0.010000000000000009\<close>, above the double \<open>0.010000000000000000208\<close> that the
  literal 0.01 denotes. In binary64 the step is not small, although \<open>101 / 100 - 1\<close> is
  \<open>1 / 100\<close> in exact arithmetic.\<close>

lemma f64_quotient_101_100: "f64 (101 / 100) = 4548635623644201 / 2 ^ 52"
  by (simp add: f64_eval)

lemma f64_difference_101_100: "f64 (f64 (101 / 100) - 1) = 45035996273705 / 2 ^ 52"
  by (simp add: f64_eval)

lemma f64_hundredth: "f64 (1 / 100) = 5764607523034235 / 2 ^ 59"
  by (simp add: f64_eval)

lemma step_100_101: "\<not> step_small 100 101"
  by (simp add: step_small_def f64_eval)

lemma trim_top_no_large_step:
  "\<not> has_large_step v itop \<Longrightarrow> trim_top v itop = Inl IndexError"
proof (induction v itop rule: trim_top.induct)
  case (1 v itop)
  show ?case
  proof (cases "itop + 1 < length v")
    case False
    then show ?thesis by (simp add: trim_top.simps [of v itop])
  next
    case True
    from "1.prems" True have small: "step_small (v ! itop) (v ! (itop + 1))"
      unfolding has_large_step_def by blast
    from "1.prems" have "\<not> has_large_step v (itop + 1)"
      unfolding has_large_step_def by (meson add_leD1 le_trans linorder_le_cases)
    with "1.IH" True small have "trim_top v (itop + 1) = Inl IndexError" by simp
    with True small show ?thesis by (simp add: trim_top.simps [of v itop])
  qed
qed

lemma trim_top_large_step:
  "has_large_step v itop \<Longrightarrow>
     \<exists>k. trim_top v itop = Inr k \<and> itop \<le> k \<and> k + 1 < length v
        \<and> \<not> step_small (v ! k) (v ! (k + 1))
        \<and> (\<forall>j. itop \<le> j \<and> j < k \<longrightarrow> step_small (v ! j) (v ! (j + 1)))"
proof (induction v itop rule: trim_top.induct)
  case (1 v itop)
  from "1.prems" obtain i where i: "itop \<le> i" "i + 1 < length v"
      "\<not> step_small (v ! i) (v ! (i + 1))"
    unfolding has_large_step_def by blast
  then have inb: "itop + 1 < length v" by simp
  show ?case
  proof (cases "step_small (v ! itop) (v ! (itop + 1))")
    case False
    with inb have "trim_top v itop = Inr itop" by (simp add: trim_top.simps [of v itop])
    with inb False show ?thesis by auto
  next
    case True
    with i have "i \<noteq> itop" by auto
    with i have "itop + 1 \<le> i" by simp
    with i have "has_large_step v (itop + 1)" unfolding has_large_step_def by blast
    with "1.IH" inb True obtain k where k: "trim_top v (itop + 1) = Inr k" "itop + 1 \<le> k"
        "k + 1 < length v" "\<not> step_small (v ! k) (v ! (k + 1))"
        "\<forall>j. itop + 1 \<le> j \<and> j < k \<longrightarrow> step_small (v ! j) (v ! (j + 1))"
      by blast
    from inb True k(1) have "trim_top v itop = Inr k" by (simp add: trim_top.simps [of v itop])
    moreover have "\<forall>j. itop \<le> j \<and> j < k \<longrightarrow> step_small (v ! j) (v ! (j + 1))"
    proof (intro allI impI)
      fix j assume j: "itop \<le> j \<and> j < k"
      show "step_small (v ! j) (v ! (j + 1))"
      proof (cases "j = itop")
        case True
        with \<open>step_small (v ! itop) (v ! (itop + 1))\<close> show ?thesis by simp
      next
        case False
        with j have "itop + 1 \<le> j \<and> j < k" by simp
        with k(5) show ?thesis by blast
      qed
    qed
    ultimately show ?thesis using k by auto
  qed
qed

text \<open>
  C10. The top-trimming loop of \<^verbatim>\<open>interp_atmo_pair\<close> is well defined exactly when, from the
  supplied top index on, some consecutive pair of depth values has a fractional step above
  0.01, the step and the comparison being those the code computes in double precision:
  then it stops at the first such index, which is in bounds together with its successor;
  when every consecutive step from the top index on is at most 0.01 the loop reads past
  the end of the depth vector and the call ends in an IndexError, which is none of the
  ValueErrors the routine raises itself.
\<close>

theorem trim_top_defined_iff_large_step:
  "(has_large_step v itop \<longrightarrow>
      (\<exists>k. trim_top v itop = Inr k \<and> itop \<le> k \<and> k + 1 < length v
         \<and> \<not> step_small (v ! k) (v ! (k + 1))
         \<and> (\<forall>j. itop \<le> j \<and> j < k \<longrightarrow> step_small (v ! j) (v ! (j + 1)))))
   \<and> (\<not> has_large_step v itop \<longrightarrow> trim_top v itop = Inl IndexError)"
  using trim_top_large_step [of v itop] trim_top_no_large_step [of v itop] by blast

theorem trim_top_defined_iff_large_step_witness:
  "has_large_step [1024, 1025, 2048, 4096] 1
   \<and> (\<exists>k. trim_top [1024, 1025, 2048, 4096] 1 = Inr k \<and> 1 \<le> k \<and> k + 1 < 4)
   \<and> trim_top [1024, 1025, 2048, 4096] 0 = Inr 1
   \<and> has_large_step [100, 101] 0
   \<and> trim_top [100, 101] 0 = Inr 0
   \<and> \<not> has_large_step [1024, 1025, 1026] 0
   \<and> trim_top [1024, 1025, 1026] 0 = Inl IndexError"
proof -
  let ?v = "[1024, 1025, 2048, 4096] :: real list"
  let ?u = "[100, 101] :: real list"
  let ?w = "[1024, 1025, 1026] :: real list"
  have s1: "step_small 1024 1025" and s2: "\<not> step_small 1025 2048" and s3: "step_small 1025 1026"
    by (simp_all add: step_small_def f64_eval)
  have large: "has_large_step ?v 1"
    unfolding has_large_step_def using s2 by (intro exI [of _ 1]) simp
  have large': "has_large_step ?u 0"
    unfolding has_large_step_def using step_100_101 by (intro exI [of _ 0]) simp
  have "\<And>i. i + 1 < length ?w \<Longrightarrow> step_small (?w ! i) (?w ! (i + 1))"
  proof -
    fix i :: nat assume "i + 1 < length ?w"
    then have "i = 0 \<or> i = 1" by auto
    then show "step_small (?w ! i) (?w ! (i + 1))" using s1 s3 by auto
  qed
  then have none: "\<not> has_large_step ?w 0"
    unfolding has_large_step_def by blast
  have first: "trim_top ?v 0 = Inr 1"
    using s1 s2 by (simp add: trim_top.simps [of _ 0] trim_top.simps [of _ "Suc 0"])
  have stop: "trim_top ?u 0 = Inr 0"
    using step_100_101 by (simp add: trim_top.simps [of _ 0])
  from trim_top_defined_iff_large_step [of ?v 1] large
  have "\<exists>k. trim_top ?v 1 = Inr k \<and> 1 \<le> k \<and> k + 1 < 4" by auto
  moreover from trim_top_defined_iff_large_step [of ?w 0] none
  have "trim_top ?w 0 = Inl IndexError" by blast
  ultimately show ?thesis using large large' none first stop by blast
qed

subsection \<open>Choice of the interpolation variable\<close>

lemma select_interpvar_None:
  "select_interpvar tags1 tags2 None =
     (if ''TAU'' \<in> set tags1 \<and> ''TAU'' \<in> set tags2 then Inr ''TAU''
      else if ''RHOX'' \<in> set tags1 \<and> ''RHOX'' \<in> set tags2 then Inr ''RHOX''
      else Inl (ValueError NoCommonDepthScale))"
  by (simp add: select_interpvar_def Let_def)

text \<open>
  C9 (evaluation of the code at the failing input). A call of \<^verbatim>\<open>interp_atmo_pair\<close> that
  omits \<^verbatim>\<open>interpvar\<close> passes the signature's default, the empty string, and the selection
  of TAU or RHOX is guarded by \<^verbatim>\<open>interpvar is None\<close>: the default is never replaced, and
  every such call ends in an error, also when both profiles carry TAU.
\<close>

theorem select_interpvar_default_fails:
  "select_interpvar [''TEFF'', ''TAU'', ''RHOX'', ''TEMP''] [''TEFF'', ''TAU'', ''RHOX'', ''TEMP'']
      interpvar_default = Inl (ValueError BadInterpvar)
   \<and> (\<exists>e. select_interpvar tags1 tags2 interpvar_default = Inl (ValueError e))"
  by (simp add: select_interpvar_def interpvar_default_def Let_def)

subsection \<open>Bracket searches\<close>

lemma bind_res_simps:
  "bind_res (Inl e) f = Inl e"
  "bind_res (Inr (a, d)) f = (case f a of Inl e \<Rightarrow> Inl e | Inr (b, d') \<Rightarrow> Inr (b, d @ d'))"
  by (simp_all add: bind_res_def)

lemma lift_res_simps:
  "lift_res (Inl e) = Inl e"
  "lift_res (Inr a) = Inr (a, [])"
  by (simp_all add: lift_res_def)

lemma teff_bracket_above:
  assumes "Tlist \<noteq> []" "Teff > Max (set Tlist)"
  shows "teff_bracket Tlist Teff = Inl (ValueError TeffTooLarge)"
  using assms by (simp add: teff_bracket_def np_min_def np_max_def bind_res_simps lift_res_simps)

lemma teff_bracket_below:
  assumes "Teff < Min (set Tlist)" "\<exists>t \<in> set Tlist. t \<noteq> Min (set Tlist)"
  shows "teff_bracket Tlist Teff =
           Inr ([Min (set Tlist), Min {t \<in> set Tlist. Min (set Tlist) < t}], [ExtrapolatingTeff])"
proof -
  define Tmin where "Tmin = Min (set Tlist)"
  define Tmax where "Tmax = Max (set Tlist)"
  from assms(2) have ne: "Tlist \<noteq> []" by auto
  then have "Tmin \<le> Tmax" unfolding Tmin_def Tmax_def by simp
  with assms(1) have le: "\<not> Teff > Tmax" "\<not> Teff > Tmin" "Teff < Tmin" unfolding Tmin_def by simp_all
  from assms(2) obtain t where t: "t \<in> set Tlist" "t \<noteq> Tmin" unfolding Tmin_def by blast
  then have "Tmin < t" unfolding Tmin_def by (simp add: order_less_le)
  with t have f: "filter (\<lambda>t. Tmin < t) Tlist \<noteq> []"
    by (auto simp: filter_empty_conv)
  from ne have mm: "np_min Tlist = Inr Tmin" "np_max Tlist = Inr Tmax"
    by (simp_all add: np_min_def np_max_def Tmin_def Tmax_def)
  from f have "np_min (filter (\<lambda>t. Tmin < t) Tlist) = Inr (Min {t \<in> set Tlist. Tmin < t})"
    by (simp add: np_min_def)
  with mm le show ?thesis unfolding Tmin_def [symmetric]
    by (simp add: teff_bracket_def bind_res_simps lift_res_simps)
qed

lemma monh_bracket_below:
  assumes "Mlist \<noteq> []" "MonH < Min (set Mlist)"
  shows "monh_bracket Mlist MonH = Inl (ValueError MonHTooSmall)"
proof -
  define Mmin where "Mmin = Min (set Mlist)"
  define Mmax where "Mmax = Max (set Mlist)"
  from assms have "Mmin \<le> Mmax" unfolding Mmin_def Mmax_def by simp
  moreover from assms have "MonH < Mmin" unfolding Mmin_def by blast
  ultimately have c: "\<not> MonH > Mmax" "MonH < Mmin" by linarith+
  from assms(1) have mm: "np_min Mlist = Inr Mmin" "np_max Mlist = Inr Mmax"
    by (simp_all add: np_min_def np_max_def Mmin_def Mmax_def)
  with c show ?thesis
    by (simp add: monh_bracket_def bind_res_simps lift_res_simps)
qed

lemma monh_bracket_above:
  assumes "MonH > Max (set Mlist)" "\<exists>m \<in> set Mlist. m \<noteq> Max (set Mlist)"
  shows "monh_bracket Mlist MonH =
           Inr ([Max {m \<in> set Mlist. m < Max (set Mlist)}, Max (set Mlist)], [ExtrapolatingMonH])"
proof -
  define Mmin where "Mmin = Min (set Mlist)"
  define Mmax where "Mmax = Max (set Mlist)"
  from assms(2) have ne: "Mlist \<noteq> []" by auto
  then have "Mmin \<le> Mmax" unfolding Mmin_def Mmax_def by simp
  with assms(1) have c: "\<not> MonH < Mmin" "MonH > Mmax" "\<not> MonH \<le> Mmax" unfolding Mmax_def by simp_all
  from assms(2) obtain t where t: "t \<in> set Mlist" "t \<noteq> Mmax" unfolding Mmax_def by blast
  then have "t < Mmax" unfolding Mmax_def by (simp add: order_less_le)
  with t have f: "filter (\<lambda>t. t < Mmax) Mlist \<noteq> []"
    by (auto simp: filter_empty_conv)
  from ne have mm: "np_min Mlist = Inr Mmin" "np_max Mlist = Inr Mmax"
    by (simp_all add: np_min_def np_max_def Mmin_def Mmax_def)
  from f have "np_max (filter (\<lambda>t. t < Mmax) Mlist) = Inr (Max {t \<in> set Mlist. t < Mmax})"
    by (simp add: np_max_def)
  with mm c show ?thesis unfolding Mmax_def [symmetric]
    by (simp add: monh_bracket_def bind_res_simps lift_res_simps)
qed

lemma bind_res_Inr_iff:
  "bind_res r f = Inr (b, d) \<longleftrightarrow> (\<exists>a d1 d2. r = Inr (a, d1) \<and> f a = Inr (b, d2) \<and> d = d1 @ d2)"
  by (auto simp: bind_res_def split: sum.splits prod.splits)

lemma lift_res_Inr_iff: "lift_res r = Inr (a, d) \<longleftrightarrow> r = Inr a \<and> d = []"
  by (auto simp: lift_res_def split: sum.splits)

lemma np_min_Inr: "np_min xs = Inr m \<Longrightarrow> m \<in> set xs"
  by (auto simp: np_min_def split: if_splits)

lemma np_max_Inr: "np_max xs = Inr m \<Longrightarrow> m \<in> set xs"
  by (auto simp: np_max_def split: if_splits)

lemma map_res_Inr:
  "map_res f xs = Inr (ys, d) \<Longrightarrow>
     length ys = length xs \<and> (\<forall>i < length xs. \<exists>d'. f (xs ! i) = Inr (ys ! i, d'))"
proof (induction xs arbitrary: ys d)
  case Nil
  then show ?case by simp
next
  case (Cons x xs)
  from Cons.prems obtain y d1 ys' d3 where y: "f x = Inr (y, d1)"
      and ys': "map_res f xs = Inr (ys', d3)" "ys = y # ys'"
    by (auto simp: bind_res_Inr_iff)
  from Cons.IH [OF ys'(1)] have IH: "length ys' = length xs"
      "\<forall>i < length xs. \<exists>d'. f (xs ! i) = Inr (ys' ! i, d')" by simp_all
  show ?case
  proof (intro conjI allI impI)
    show "length ys = length (x # xs)" using IH(1) ys'(2) by simp
  next
    fix i assume "i < length (x # xs)"
    then show "\<exists>d'. f ((x # xs) ! i) = Inr (ys ! i, d')"
      using y IH(2) ys'(2) by (cases i) auto
  qed
qed

lemma monh_bracket_Inr:
  assumes "monh_bracket Mlist MonH = Inr (Mb, d)"
  shows "length Mb = 2 \<and> set Mb \<subseteq> set Mlist"
  using assms unfolding monh_bracket_def
  by (auto simp: bind_res_Inr_iff lift_res_Inr_iff split: if_splits dest!: np_min_Inr np_max_Inr)

lemma logg_bracket_Inr:
  assumes "logg_bracket Glist logg_t = Inr (Gb, d)"
  shows "length Gb = 2 \<and> set Gb \<subseteq> set Glist"
  using assms unfolding logg_bracket_def
  by (auto simp: bind_res_Inr_iff lift_res_Inr_iff split: if_splits dest!: np_min_Inr np_max_Inr)

lemma teff_bracket_Inr:
  assumes "teff_bracket Tlist Teff = Inr (Tb, d)"
  shows "length Tb = 2 \<and> set Tb \<subseteq> set Tlist"
  using assms unfolding teff_bracket_def
  by (auto simp: bind_res_Inr_iff lift_res_Inr_iff split: if_splits dest!: np_min_Inr np_max_Inr)

lemma Tlist_at_matching:
  assumes "T \<in> set (Tlist_at grid M G)"
  shows "matching grid T G M \<noteq> []"
proof -
  from assms obtain a where a: "a \<in> set grid" "monh a = M" "logg a = G" "teff a = T"
    by (auto simp: Tlist_at_def np_unique_def)
  then obtain i where "i < length grid" "grid ! i = a" by (auto simp: in_set_conv_nth)
  with a show ?thesis
    by (auto simp: matching_def np_where_def filter_empty_conv)
qed

lemma find_brackets_Inr:
  assumes "find_brackets grid Teff logg_t MonH = Inr ((Mb, Gb, Tb), d)"
    and "iMb < 2" "iGb < 2" "iTb < 2"
  shows "Tb_at Tb iMb iGb ! iTb \<in> set (Tlist_at grid (Mb ! iMb) (Gb ! iMb ! iGb))"
proof -
  from assms(1) obtain d1 d2 d3 where
      M: "monh_bracket (np_unique (map monh grid)) MonH = Inr (Mb, d1)"
      and G: "map_res (\<lambda>iMb. logg_bracket (Glist_at grid (Mb ! iMb)) logg_t) [0, 1] = Inr (Gb, d2)"
      and T: "map_res (\<lambda>(iGb, iMb). teff_bracket (Tlist_at grid (Mb ! iMb) (Gb ! iMb ! iGb)) Teff)
                 [(0, 0), (0, 1), (1, 0), (1, 1)] = Inr (Tb, d3)"
    unfolding find_brackets_def by (auto simp: bind_res_Inr_iff)
  let ?ps = "[(0, 0), (0, 1), (1, 0), (1, 1)] :: (nat \<times> nat) list"
  from assms(2,3) have idx: "2 * iGb + iMb < length ?ps" "?ps ! (2 * iGb + iMb) = (iGb, iMb)"
    by (auto simp: less_2_cases_iff)
  from map_res_Inr [OF T] idx(1) obtain d' where
    "(\<lambda>(iGb, iMb). teff_bracket (Tlist_at grid (Mb ! iMb) (Gb ! iMb ! iGb)) Teff) (?ps ! (2 * iGb + iMb))
       = Inr (Tb ! (2 * iGb + iMb), d')"
    by blast
  then have "teff_bracket (Tlist_at grid (Mb ! iMb) (Gb ! iMb ! iGb)) Teff = Inr (Tb ! (2 * iGb + iMb), d')"
    unfolding idx(2) by simp
  from teff_bracket_Inr [OF this] assms(4) show ?thesis
    unfolding Tb_at_def by (auto simp: subset_iff)
qed

lemma map_res_nth:
  "map_res f xs = Inr (ys, d) \<Longrightarrow> i < length xs \<Longrightarrow> \<exists>d'. f (xs ! i) = Inr (ys ! i, d')"
  using map_res_Inr [of f xs ys d] by blast

lemma map_res_total:
  "(\<And>x. x \<in> set xs \<Longrightarrow> \<exists>y dx. f x = Inr (y, dx)) \<Longrightarrow> \<exists>ys d. map_res f xs = Inr (ys, d)"
proof (induction xs)
  case Nil
  then show ?case by simp
next
  case (Cons x xs)
  from Cons.prems obtain y dx where "f x = Inr (y, dx)" by fastforce
  moreover from Cons obtain ys d where "map_res f xs = Inr (ys, d)" by fastforce
  ultimately show ?case by (simp add: bind_res_def)
qed

lemma map_res_diags:
  "map_res f xs = Inr (ys, d) \<Longrightarrow> i < length xs \<Longrightarrow> f (xs ! i) = Inr (y, dx) \<Longrightarrow> set dx \<subseteq> set d"
proof (induction xs arbitrary: ys d i)
  case Nil
  then show ?case by simp
next
  case (Cons x xs)
  from Cons.prems(1) obtain y0 d1 ys' d3 where y: "f x = Inr (y0, d1)"
      and ys': "map_res f xs = Inr (ys', d3)" and d: "d = d1 @ d3"
    by (auto simp: bind_res_Inr_iff)
  show ?case
  proof (cases i)
    case 0
    with Cons.prems(3) y d show ?thesis by simp
  next
    case (Suc j)
    with Cons.prems have "j < length xs" "f (xs ! j) = Inr (y, dx)" by simp_all
    from Cons.IH [OF ys' this] d show ?thesis by auto
  qed
qed

lemma corner_index_matching:
  "matching grid T G M \<noteq> [] \<Longrightarrow>
     corner_index grid T G M =
       Inr (hd (matching grid T G M),
            if length (matching grid T G M) \<noteq> 1 then [ModelsInGrid (length (matching grid T G M))]
            else [])"
  by (cases "matching grid T G M") (simp_all add: corner_index_def Let_def)

lemma corner_order_nth:
  "iMb < 2 \<Longrightarrow> iGb < 2 \<Longrightarrow> iTb < 2 \<Longrightarrow>
     4 * iTb + 2 * iGb + iMb < length corner_order
     \<and> corner_order ! (4 * iTb + 2 * iGb + iMb) = (iTb, iGb, iMb)"
  by (auto simp: corner_order_def less_2_cases_iff)

lemma corner_order_set:
  "(iTb, iGb, iMb) \<in> set corner_order \<Longrightarrow> iMb < 2 \<and> iGb < 2 \<and> iTb < 2"
  by (auto simp: corner_order_def)

lemma logg_bracket_below:
  assumes "Glist \<noteq> []" "logg_t < Min (set Glist)"
  shows "logg_bracket Glist logg_t = Inl (ValueError LoggTooSmall)"
proof -
  define Gmin where "Gmin = Min (set Glist)"
  define Gmax where "Gmax = Max (set Glist)"
  from assms have "Gmin \<le> Gmax" unfolding Gmin_def Gmax_def by simp
  moreover from assms have "logg_t < Gmin" unfolding Gmin_def by blast
  ultimately have c: "\<not> logg_t > Gmax" "logg_t < Gmin" by linarith+
  from assms(1) have mm: "np_min Glist = Inr Gmin" "np_max Glist = Inr Gmax"
    by (simp_all add: np_min_def np_max_def Gmin_def Gmax_def)
  with c show ?thesis
    by (simp add: logg_bracket_def bind_res_simps lift_res_simps)
qed

lemma logg_bracket_above:
  assumes "logg_t > Max (set Glist)" "\<exists>g \<in> set Glist. g \<noteq> Max (set Glist)"
  shows "logg_bracket Glist logg_t =
           Inr ([Max {g \<in> set Glist. g < Max (set Glist)}, Max (set Glist)], [ExtrapolatingLogg])"
proof -
  define Gmin where "Gmin = Min (set Glist)"
  define Gmax where "Gmax = Max (set Glist)"
  from assms(2) have ne: "Glist \<noteq> []" by auto
  then have "Gmin \<le> Gmax" unfolding Gmin_def Gmax_def by simp
  with assms(1) have c: "\<not> logg_t < Gmin" "logg_t > Gmax" "\<not> logg_t \<le> Gmax"
    unfolding Gmax_def by simp_all
  from assms(2) obtain t where t: "t \<in> set Glist" "t \<noteq> Gmax" unfolding Gmax_def by blast
  then have "t < Gmax" unfolding Gmax_def by (simp add: order_less_le)
  with t have f: "filter (\<lambda>t. t < Gmax) Glist \<noteq> []"
    by (auto simp: filter_empty_conv)
  from ne have mm: "np_min Glist = Inr Gmin" "np_max Glist = Inr Gmax"
    by (simp_all add: np_min_def np_max_def Gmin_def Gmax_def)
  from f have "np_max (filter (\<lambda>t. t < Gmax) Glist) = Inr (Max {t \<in> set Glist. t < Gmax})"
    by (simp add: np_max_def)
  with mm c show ?thesis unfolding Gmax_def [symmetric]
    by (simp add: logg_bracket_def bind_res_simps lift_res_simps)
qed

text \<open>
  C7 (as amended). The temperature bracket mirrors the metallicity and gravity brackets. On
  a non-empty list of subgrid temperatures, a requested temperature above the maximum
  raises the range error; a requested temperature below the minimum succeeds with exactly
  the extrapolation warning and the two smallest temperatures as bracket, provided the
  subgrid holds at least two distinct temperatures. The metallicity and gravity brackets
  raise below the minimum and extrapolate, with a warning and the two largest values, above
  the maximum, under the same proviso.
\<close>

theorem teff_bracket_mirrors_monh_logg:
  "(Tlist \<noteq> [] \<and> Teff > Max (set Tlist) \<longrightarrow>
       teff_bracket Tlist Teff = Inl (ValueError TeffTooLarge))
   \<and> (Teff < Min (set Tlist) \<and> (\<exists>t \<in> set Tlist. t \<noteq> Min (set Tlist)) \<longrightarrow>
       teff_bracket Tlist Teff =
         Inr ([Min (set Tlist), Min {t \<in> set Tlist. Min (set Tlist) < t}], [ExtrapolatingTeff]))
   \<and> (Mlist \<noteq> [] \<and> MonH < Min (set Mlist) \<longrightarrow>
       monh_bracket Mlist MonH = Inl (ValueError MonHTooSmall))
   \<and> (MonH > Max (set Mlist) \<and> (\<exists>m \<in> set Mlist. m \<noteq> Max (set Mlist)) \<longrightarrow>
       monh_bracket Mlist MonH =
         Inr ([Max {m \<in> set Mlist. m < Max (set Mlist)}, Max (set Mlist)], [ExtrapolatingMonH]))
   \<and> (Glist \<noteq> [] \<and> logg_t < Min (set Glist) \<longrightarrow>
       logg_bracket Glist logg_t = Inl (ValueError LoggTooSmall))
   \<and> (logg_t > Max (set Glist) \<and> (\<exists>g \<in> set Glist. g \<noteq> Max (set Glist)) \<longrightarrow>
       logg_bracket Glist logg_t =
         Inr ([Max {g \<in> set Glist. g < Max (set Glist)}, Max (set Glist)], [ExtrapolatingLogg]))"
  by (intro conjI impI; (elim conjE)?;
      rule teff_bracket_above teff_bracket_below monh_bracket_below monh_bracket_above
        logg_bracket_below logg_bracket_above; assumption)

theorem teff_bracket_mirrors_monh_logg_witness:
  "teff_bracket [4000, 5000, 6000] 7000 = Inl (ValueError TeffTooLarge)
   \<and> teff_bracket [4000, 5000, 6000] 3000 = Inr ([4000, 5000], [ExtrapolatingTeff])
   \<and> monh_bracket [-1, 0, 1 / 2] (-2) = Inl (ValueError MonHTooSmall)
   \<and> monh_bracket [-1, 0, 1 / 2] 1 = Inr ([0, 1 / 2], [ExtrapolatingMonH])
   \<and> logg_bracket [3, 4, 5] 2 = Inl (ValueError LoggTooSmall)
   \<and> logg_bracket [3, 4, 5] 6 = Inr ([4, 5], [ExtrapolatingLogg])"
proof -
  have m1: "{t \<in> set [4000, 5000, 6000 :: real]. Min (set [4000, 5000, 6000]) < t} = {5000, 6000}"
    by auto
  have m2: "{m \<in> set [-1, 0, 1 / 2 :: real]. m < Max (set [-1, 0, 1 / 2])} = {-1, 0}"
    by auto
  have m3: "{g \<in> set [3, 4, 5 :: real]. g < Max (set [3, 4, 5])} = {3, 4}"
    by auto
  from teff_bracket_mirrors_monh_logg [where Tlist = "[4000, 5000, 6000]" and Teff = 7000
      and Mlist = "[-1, 0, 1 / 2]" and MonH = "-2" and Glist = "[3, 4, 5]" and logg_t = 2]
  have a: "teff_bracket [4000, 5000, 6000] 7000 = Inl (ValueError TeffTooLarge)"
      "monh_bracket [-1, 0, 1 / 2] (-2) = Inl (ValueError MonHTooSmall)"
      "logg_bracket [3, 4, 5] 2 = Inl (ValueError LoggTooSmall)"
    by simp_all
  from teff_bracket_mirrors_monh_logg [where Tlist = "[4000, 5000, 6000]" and Teff = 3000
      and Mlist = "[-1, 0, 1 / 2]" and MonH = 1 and Glist = "[3, 4, 5]" and logg_t = 6]
  have b: "teff_bracket [4000, 5000, 6000] 3000 = Inr ([4000, 5000], [ExtrapolatingTeff])"
      "monh_bracket [-1, 0, 1 / 2] 1 = Inr ([0, 1 / 2], [ExtrapolatingMonH])"
      "logg_bracket [3, 4, 5] 6 = Inr ([4, 5], [ExtrapolatingLogg])"
    unfolding m1 m2 m3 by simp_all
  from a b show ?thesis by simp
qed

text \<open>
  C7 (counterexample to the claim as stated). On a grid whose subgrid holds a single
  temperature, 5000 K, a request for 4000 K lies below the subgrid minimum and does not
  succeed: the upper bracket value is the minimum of an empty selection, and the search
  ends in numpy's ValueError.
\<close>

theorem teff_below_min_single_temperature_fails:
  "Tlist_at grid_single 0 4 = [5000]
   \<and> teff_bracket [5000] 4000 = Inl (ValueError ZeroSizeReduction)
   \<and> find_brackets grid_single 4000 4 0 = Inl (ValueError ZeroSizeReduction)"
  by (simp add: grid_single_def find_brackets_def monh_bracket_def logg_bracket_def
      teff_bracket_def bind_res_def lift_res_def np_min_def np_max_def np_unique_def
      Glist_at_def Tlist_at_def)

text \<open>
  C8. Every corner key the bracket search produces is the key of at least one grid entry.
  The lookup of such a key never fails: it returns the first matching entry, and prints the
  diagnostic with the number of matches exactly when that number is not 1; the loop over
  the eight corners succeeds, stores the first match at the corner's place of
  \<^verbatim>\<open>icor\<close> and carries the diagnostic.
\<close>

theorem corner_lookup_takes_first_match:
  assumes "find_brackets grid Teff logg_t MonH = Inr ((Mb, Gb, Tb), d)"
    and "iMb < 2" "iGb < 2" "iTb < 2"
  shows "matching grid (Tb_at Tb iMb iGb ! iTb) (Gb ! iMb ! iGb) (Mb ! iMb) \<noteq> []
     \<and> corner_index grid (Tb_at Tb iMb iGb ! iTb) (Gb ! iMb ! iGb) (Mb ! iMb) =
         Inr (hd (matching grid (Tb_at Tb iMb iGb ! iTb) (Gb ! iMb ! iGb) (Mb ! iMb)),
              if length (matching grid (Tb_at Tb iMb iGb ! iTb) (Gb ! iMb ! iGb) (Mb ! iMb)) \<noteq> 1
              then [ModelsInGrid (length (matching grid (Tb_at Tb iMb iGb ! iTb) (Gb ! iMb ! iGb) (Mb ! iMb)))]
              else [])
     \<and> (\<exists>icor dc. find_corners grid Mb Gb Tb = Inr (icor, dc)
           \<and> icor_at icor iMb iGb iTb =
               hd (matching grid (Tb_at Tb iMb iGb ! iTb) (Gb ! iMb ! iGb) (Mb ! iMb))
           \<and> (length (matching grid (Tb_at Tb iMb iGb ! iTb) (Gb ! iMb ! iGb) (Mb ! iMb)) \<noteq> 1
                \<longrightarrow> ModelsInGrid (length (matching grid (Tb_at Tb iMb iGb ! iTb) (Gb ! iMb ! iGb) (Mb ! iMb)))
                      \<in> set dc))"
proof -
  let ?f = "\<lambda>(iTb, iGb, iMb).
              corner_index grid (Tb_at Tb iMb iGb ! iTb) (Gb ! iMb ! iGb) (Mb ! iMb)"
  let ?m = "matching grid (Tb_at Tb iMb iGb ! iTb) (Gb ! iMb ! iGb) (Mb ! iMb)"
  let ?i = "4 * iTb + 2 * iGb + iMb"
  have ne: "matching grid (Tb_at Tb m g ! t) (Gb ! m ! g) (Mb ! m) \<noteq> []"
    if "m < 2" "g < 2" "t < 2" for m g t
    using Tlist_at_matching [OF find_brackets_Inr [OF assms(1) that]] .
  have here: "?f (iTb, iGb, iMb) =
      Inr (hd ?m, if length ?m \<noteq> 1 then [ModelsInGrid (length ?m)] else [])"
    using corner_index_matching [OF ne [OF assms(2-4)]] by simp
  have "\<exists>y dx. ?f x = Inr (y, dx)" if "x \<in> set corner_order" for x
  proof -
    obtain t g m where x: "x = (t, g, m)" by (cases x)
    with that corner_order_set have "m < 2" "g < 2" "t < 2" by blast+
    from corner_index_matching [OF ne [OF this]] x show ?thesis by simp
  qed
  from map_res_total [of corner_order ?f, OF this]
  obtain icor dc where fc: "map_res ?f corner_order = Inr (icor, dc)" by blast
  from corner_order_nth [OF assms(2-4)]
  have nth: "?i < length corner_order" "corner_order ! ?i = (iTb, iGb, iMb)" by simp_all
  from map_res_nth [OF fc nth(1)] obtain d' where "?f (corner_order ! ?i) = Inr (icor ! ?i, d')"
    by blast
  then have "?f (iTb, iGb, iMb) = Inr (icor ! ?i, d')" unfolding nth(2) .
  with here have at: "icor ! ?i = hd ?m" by simp
  from map_res_diags [OF fc nth(1)] nth(2) here
  have "set (if length ?m \<noteq> 1 then [ModelsInGrid (length ?m)] else []) \<subseteq> set dc"
    by simp
  then have dg: "length ?m \<noteq> 1 \<longrightarrow> ModelsInGrid (length ?m) \<in> set dc"
    by (auto split: if_splits)
  from fc at dg have "\<exists>icor dc. find_corners grid Mb Gb Tb = Inr (icor, dc)
           \<and> icor_at icor iMb iGb iTb = hd ?m
           \<and> (length ?m \<noteq> 1 \<longrightarrow> ModelsInGrid (length ?m) \<in> set dc)"
    unfolding find_corners_def icor_at_def by blast
  with ne [OF assms(2-4)] corner_index_matching [OF ne [OF assms(2-4)]] show ?thesis by blast
qed

theorem corner_lookup_takes_first_match_witness:
  "find_brackets grid_dup 5500 4 0 =
     Inr (([0, 0], [[4, 4], [4, 4]], [[5000, 6000], [5000, 6000], [5000, 6000], [5000, 6000]]), [])
   \<and> matching grid_dup 5000 4 0 = [0, 1]
   \<and> corner_index grid_dup 5000 4 0 = Inr (0, [ModelsInGrid 2])
   \<and> (\<exists>icor dc. find_corners grid_dup [0, 0] [[4, 4], [4, 4]]
                    [[5000, 6000], [5000, 6000], [5000, 6000], [5000, 6000]] = Inr (icor, dc)
          \<and> icor_at icor 0 0 0 = 0 \<and> ModelsInGrid 2 \<in> set dc)"
proof -
  let ?Tb = "[[5000, 6000], [5000, 6000], [5000, 6000], [5000, 6000]] :: real list list"
  have fb: "find_brackets grid_dup 5500 4 0 = Inr (([0, 0], [[4, 4], [4, 4]], ?Tb), [])"
    by (simp add: grid_dup_def find_brackets_def monh_bracket_def logg_bracket_def
      teff_bracket_def bind_res_def lift_res_def np_min_def np_max_def np_unique_def
      Glist_at_def Tlist_at_def)
  have m: "matching grid_dup 5000 4 0 = [0, 1]"
    by (simp add: grid_dup_def matching_def np_where_def upt_rec)
  have key: "Tb_at ?Tb 0 0 ! 0 = 5000" "[[4, 4], [4, 4 :: real]] ! 0 ! 0 = 4" "[0, 0 :: real] ! 0 = 0"
    by (simp_all add: Tb_at_def)
  from corner_lookup_takes_first_match [OF fb, of 0 0 0]
  show ?thesis unfolding key using fb m by (simp add: numeral_2_eq_2)
qed

text \<open>
  C5 (evaluation of the code). A caller's SPH against a computed PP raises the error. A
  caller's PP against a computed SPH prints that the input overrides the grid's value and
  then stores the computed value: the geometry of the returned structure is SPH, not the
  caller's PP.
\<close>

theorem set_geom_stores_computed_value:
  "set_geom [''GEOM''] ''SPH'' ''PP'' = Inl (ValueError GeomNotValid)
   \<and> set_geom [''GEOM''] ''PP'' ''SPH'' = Inr (''SPH'', [GeomOverrides ''PP'' ''SPH''])
   \<and> grid_geom [''TEFF'', ''RADIUS'', ''HEIGHT''] [2, 2, 2, 2, 2, 2, 2, 2] = ''SPH''
   \<and> grid_geom [''TEFF''] [] = ''PP''"
  by (simp add: set_geom_def grid_geom_def bind_res_def)

subsection \<open>The constrained fit\<close>

lemma bind_err_simps:
  "bind_err (Inl e) f = Inl e"
  "bind_err (Inr a) f = f a"
  by (simp_all add: bind_err_def)

lemma bind_err_Inr_iff:
  "bind_err r f = Inr b \<longleftrightarrow> (\<exists>a. r = Inr a \<and> f a = Inr b)"
  by (cases r) (simp_all add: bind_err_def)

lemma interp_atmo_func_length:
  "interp_atmo_func x1 par nd x2 y2 y1 = Inr ys \<Longrightarrow> length ys = length x1"
  by (auto simp: interp_atmo_func_def Let_def bind_err_Inr_iff split: if_splits option.splits)

lemma fit_func_tail:
  assumes "length x_in = fa_ndep fa"
  shows "fit_func fa (x_in @ replicate k 0) p =
           bind_err (fit_func fa x_in p) (\<lambda>ys. Inr (ys @ replicate k 0))"
  using assms
  by (simp add: fit_func_def interp_atmo_func_def Let_def bind_err_def
           split: sum.splits)

lemma zero_residuals:
  "map (\<lambda>(fi, yi, si). (fi - yi) / si) (zip (replicate (length cs) 0) (zip (replicate (length cs) 0) cs))
     = replicate (length cs) (0::real)"
  by (induction cs) simp_all

lemma interp_atmo_constrained_data:
  "interp_atmo_constrained cf x_in y_in err_in par (Some c) kw =
     bind_err (cf (fit_func (kw_functargs kw)) (constrained_x x_in c) (constrained_y y_in c)
                 (constrained_err err_in c) par) (\<lambda>popt.
     bind_err (fit_func (kw_functargs kw) (constrained_x x_in c) popt) (\<lambda>yfit.
     Inr (popt, if filter (\<lambda>e. e \<noteq> 0) c \<noteq> [] then take (fa_ndep (kw_functargs kw)) yfit else yfit)))"
  by (simp add: interp_atmo_constrained_def constrained_x_def constrained_y_def
      constrained_err_def Let_def)

text \<open>
  C1 (evaluation of the code). Whenever the fitted depth points are all the \<open>ndep\<close> points
  named in \<^verbatim>\<open>functargs\<close>, as in the temperature pass of \<^verbatim>\<open>interp_atmo_pair\<close>, the
  model function leaves the entries of the appended points at zero, so their residuals
  \<open>(0 - 0) / constraint\<close> are zero for every parameter vector and every constraint
  uncertainty: the appended points do not penalise any parameter.
\<close>

theorem constraint_points_have_zero_residual:
  assumes "length x_in = fa_ndep fa" "length y_in = length x_in" "length err_in = length x_in"
  shows "penalty_residuals fa x_in y_in err_in constraints p =
           bind_err (fit_func fa x_in p)
             (\<lambda>_. Inr (replicate (length (filter (\<lambda>e. e \<noteq> 0) constraints)) 0))"
proof (cases "fit_func fa x_in p")
  case (Inl e)
  then show ?thesis
    by (simp add: penalty_residuals_def residuals_def constrained_x_def
        fit_func_tail [OF assms(1)] bind_err_simps)
next
  case (Inr ys)
  let ?cs = "filter (\<lambda>e. e \<noteq> 0) constraints"
  let ?k = "length ?cs"
  from Inr have len: "length ys = length x_in"
    unfolding fit_func_def by (rule interp_atmo_func_length)
  have z: "map (\<lambda>(fi, yi, si). (fi - yi) / si) (zip (replicate ?k 0) (zip (replicate ?k 0) ?cs))
             = replicate ?k (0::real)"
    by (rule zero_residuals)
  have "drop (length x_in)
          (map (\<lambda>(fi, yi, si). (fi - yi) / si)
             (zip (ys @ replicate ?k 0) (zip (y_in @ replicate ?k 0) (err_in @ ?cs))))
        = replicate ?k 0"
    using len assms(2,3) z by simp
  with Inr show ?thesis
    by (simp add: penalty_residuals_def residuals_def constrained_x_def constrained_y_def
        constrained_err_def fit_func_tail [OF assms(1)] bind_err_simps)
qed

lemma fit_func_line_0: "fit_func fa_line [0, 1, 2] [0, 0, 0, 0] = Inr [0, 1, 2]"
  by (simp add: fa_line_def fit_func_def interp_atmo_func_def interp1d_def searchsorted_def
      Let_def bind_err_simps np_min_def np_max_def)

lemma fit_func_line_1: "fit_func fa_line [0, 1, 2] [5, 1, 0, 0] = Inr [0, 0, 0]"
  by (simp add: fa_line_def fit_func_def interp_atmo_func_def interp1d_def searchsorted_def
      Let_def bind_err_simps np_min_def np_max_def)

theorem constraint_points_have_zero_residual_witness:
  "penalty_residuals fa_line [0, 1, 2] [0, 2, 4] [5 / 100, 5 / 100, 5 / 100] pair_constraints
      [0, 0, 0, 0] = Inr [0]
   \<and> penalty_residuals fa_line [0, 1, 2] [0, 2, 4] [5 / 100, 5 / 100, 5 / 100] pair_constraints
      [5, 1, 0, 0] = Inr [0]
   \<and> penalty_residuals fa_line [0, 1, 2] [0, 2, 4] [5 / 100, 5 / 100, 5 / 100] [1000, 0, 0, 0]
      [5, 1, 0, 0] = Inr [0]"
proof -
  have n: "length [0, 1, 2 :: real] = fa_ndep fa_line" by (simp add: fa_line_def)
  show ?thesis
    using constraint_points_have_zero_residual [OF n, of "[0, 2, 4]" "[5 / 100, 5 / 100, 5 / 100]"]
    by (simp add: fit_func_line_0 fit_func_line_1 bind_err_simps pair_constraints_def)
qed

lemma interp1d_line:
  assumes "sorted_wrt (<) x" "2 \<le> length x"
  shows "interp1d x (map (\<lambda>t. a * t + b) x) v = a * v + b"
proof -
  let ?y = "map (\<lambda>t. a * t + b) x"
  have "sorted (map fst (zip x ?y))"
    using assms(1) by (simp add: strict_sorted_imp_sorted)
  then have kn: "sort_key fst (zip x ?y) = zip x ?y"
    by (rule sort_key_id_if_sorted)
  define hi where "hi = min (max (searchsorted x v) 1) (length x - 1)"
  from assms(2) have hi: "1 \<le> hi" "hi < length x" unfolding hi_def by auto
  then have lo: "hi - 1 < hi" by simp
  with assms(1) hi have ne: "x ! (hi - 1) < x ! hi"
    by (simp add: sorted_wrt_nth_less)
  from hi have nth: "?y ! hi = a * x ! hi + b" "?y ! (hi - 1) = a * x ! (hi - 1) + b"
    by simp_all
  have "interp1d x ?y v =
      (?y ! hi - ?y ! (hi - 1)) / (x ! hi - x ! (hi - 1)) * (v - x ! (hi - 1)) + ?y ! (hi - 1)"
    unfolding interp1d_def Let_def kn hi_def by simp
  also have "\<dots> = a * (x ! hi - x ! (hi - 1)) / (x ! hi - x ! (hi - 1)) * (v - x ! (hi - 1))
                  + (a * x ! (hi - 1) + b)"
    unfolding nth by (simp add: algebra_simps)
  also have "\<dots> = a * (v - x ! (hi - 1)) + (a * x ! (hi - 1) + b)"
    using ne by simp
  also have "\<dots> = a * v + b"
    by (simp add: algebra_simps)
  finally show ?thesis .
qed

lemma interp1d_shifted_line:
  "interp1d (map (\<lambda>x. x + p0) [0, 1, 2]) (map (\<lambda>y. y + p1) [0, 1, 2]) v = v + (p1 - p0)"
proof -
  have "map (\<lambda>y. y + p1) [0, 1, 2 :: real] = map (\<lambda>t. 1 * t + (p1 - p0)) (map (\<lambda>x. x + p0) [0, 1, 2])"
    by simp
  moreover have "sorted_wrt (<) (map (\<lambda>x. x + p0) [0, 1, 2 :: real])" by simp
  moreover have "2 \<le> length (map (\<lambda>x. x + p0) [0, 1, 2 :: real])" by simp
  ultimately show ?thesis
    using interp1d_line [of "map (\<lambda>x. x + p0) [0, 1, 2]" 1 "p1 - p0" v] by simp
qed

lemma fit_func_line_unscaled:
  "fit_func fa_line [0, 1, 2, 0] [p0, p1, 0, p3] =
     Inr [min (max (p1 - p0) 0) 4, min (max (1 + (p1 - p0)) 0) 4, min (max (2 + (p1 - p0)) 0) 4, 0]"
proof -
  have yi: "map (interp1d (map (\<lambda>x. x + p0) [0, 1, 2]) (map (\<lambda>y. y + p1) [0, 1, 2])) [0, 1, 2]
              = [p1 - p0, 1 + (p1 - p0), 2 + (p1 - p0)]"
    unfolding interp1d_shifted_line by simp
  have mn: "np_min [p1 - p0, 1 + (p1 - p0), 2 + (p1 - p0)] = Inr (p1 - p0)"
    by (simp add: np_min_def)
  have mx: "np_max [p1 - p0, 1 + (p1 - p0), 2 + (p1 - p0)] = Inr (2 + (p1 - p0))"
    by (simp add: np_max_def)
  have m1: "np_min [0, 2, 4] = Inr 0" "np_max [0, 2, 4] = Inr 4"
    by (simp_all add: np_min_def np_max_def)
  have "interp_atmo_func [0, 1, 2, 0] [p0, p1, 0, p3] (Some 3) [0, 1, 2] [0, 1, 2] (Some [0, 2, 4])
          = Inr [min (max (p1 - p0) 0) 4, min (max (1 + (p1 - p0)) 0) 4,
                 min (max (2 + (p1 - p0)) 0) 4, 0]"
    unfolding interp_atmo_func_def Let_def
    by (simp add: yi mn mx m1 bind_err_simps del: list.map) simp
  then show ?thesis by (simp add: fit_func_def fa_line_def)
qed

lemma fit_func_line_scaled: "fit_func fa_line [0, 1, 2, 0] [0, 1, 1, 0] = Inr [0, 2, 4, 0]"
  by (simp add: fa_line_def fit_func_def interp_atmo_func_def interp1d_def searchsorted_def
      Let_def bind_err_simps np_min_def np_max_def)

lemma line_data:
  "constrained_x [0, 1, 2] pair_constraints = [0, 1, 2, 0]"
  "constrained_y [0, 2, 4] pair_constraints = [0, 2, 4, 0]"
  "constrained_err [5 / 100, 5 / 100, 5 / 100] pair_constraints = [5 / 100, 5 / 100, 5 / 100, 1 / 2]"
  by (simp_all add: constrained_x_def constrained_y_def constrained_err_def pair_constraints_def)

lemma scaled_nonzero_pos: "0 < (m::real) \<Longrightarrow> (m - 0) / (5 / 100) \<noteq> 0"
  by simp

lemma scaled_nonzero_le: "(m::real) \<le> 1 \<Longrightarrow> (m - 2) / (5 / 100) \<noteq> 0"
  by simp

lemma chi2_line_unscaled_pos:
  "\<exists>c. chi2 (fit_func fa_line) [0, 1, 2, 0] [0, 2, 4, 0] [5 / 100, 5 / 100, 5 / 100, 1 / 2]
          [p0, p1, 0, p3] = Inr c \<and> 0 < c"
proof -
  define d where "d = p1 - p0"
  define r0 where "r0 = (min (max d 0) 4 - 0) / (5 / 100)"
  define r1 where "r1 = (min (max (1 + d) 0) 4 - 2) / (5 / 100)"
  define r2 where "r2 = (min (max (2 + d) 0) 4 - 4) / (5 / 100)"
  have val: "chi2 (fit_func fa_line) [0, 1, 2, 0] [0, 2, 4, 0] [5 / 100, 5 / 100, 5 / 100, 1 / 2]
          [p0, p1, 0, p3] = Inr (r0 * r0 + (r1 * r1 + (r2 * r2 + 0)))"
    unfolding chi2_def residuals_def fit_func_line_unscaled r0_def r1_def r2_def d_def
    by (simp add: bind_err_simps)
  have "r0 \<noteq> 0 \<or> r1 \<noteq> 0"
  proof (cases "0 < d")
    case True
    then have "0 < min (max d 0) 4" by simp
    then have "r0 \<noteq> 0" unfolding r0_def by (rule scaled_nonzero_pos)
    then show ?thesis ..
  next
    case False
    then have "min (max (1 + d) 0) 4 \<le> 1" by simp
    then have "r1 \<noteq> 0" unfolding r1_def by (rule scaled_nonzero_le)
    then show ?thesis ..
  qed
  then have "0 < r0 * r0 + r1 * r1"
    by (metis add_pos_nonneg add_nonneg_pos zero_le_square not_real_square_gt_zero)
  moreover have "0 \<le> r2 * r2" by simp
  ultimately have "0 < r0 * r0 + (r1 * r1 + (r2 * r2 + 0))" by linarith
  with val show ?thesis by blast
qed

text \<open>
  C3 (evaluation of the code). The \<^verbatim>\<open>fixed\<close> flags built by \<^verbatim>\<open>interp_atmo_pair\<close> do not
  influence \<^verbatim>\<open>interp_atmo_constrained\<close>: the fitter is called with the model function,
  the data and the starting point only, all four parameters free. On the straight-line
  example the objective is zero at the parameter vector \<open>[0, 1, 1, 0]\<close>, whose index 2 is
  not its initial value 0, and positive at every parameter vector whose index 2 is 0: no
  least-squares solution keeps parameter 2 at its initial guess.
\<close>

theorem fixed_flag_never_reaches_fitter:
  "interp_atmo_constrained cf x_in y_in err_in par cs (kw\<lparr>kw_parinfo := flags\<rparr>)
     = interp_atmo_constrained cf x_in y_in err_in par cs kw
   \<and> chi2 (fit_func fa_line) (constrained_x [0, 1, 2] pair_constraints)
        (constrained_y [0, 2, 4] pair_constraints)
        (constrained_err [5 / 100, 5 / 100, 5 / 100] pair_constraints) [0, 1, 1, 0] = Inr 0
   \<and> (\<exists>c. chi2 (fit_func fa_line) (constrained_x [0, 1, 2] pair_constraints)
              (constrained_y [0, 2, 4] pair_constraints)
              (constrained_err [5 / 100, 5 / 100, 5 / 100] pair_constraints) [p0, p1, 0, p3] = Inr c
          \<and> 0 < c)"
proof (intro conjI)
  show "interp_atmo_constrained cf x_in y_in err_in par cs (kw\<lparr>kw_parinfo := flags\<rparr>)
     = interp_atmo_constrained cf x_in y_in err_in par cs kw"
    by (simp add: interp_atmo_constrained_def)
  show "chi2 (fit_func fa_line) (constrained_x [0, 1, 2] pair_constraints)
        (constrained_y [0, 2, 4] pair_constraints)
        (constrained_err [5 / 100, 5 / 100, 5 / 100] pair_constraints) [0, 1, 1, 0] = Inr 0"
    unfolding line_data chi2_def residuals_def fit_func_line_scaled
    by (simp add: bind_err_simps)
  show "\<exists>c. chi2 (fit_func fa_line) (constrained_x [0, 1, 2] pair_constraints)
              (constrained_y [0, 2, 4] pair_constraints)
              (constrained_err [5 / 100, 5 / 100, 5 / 100] pair_constraints) [p0, p1, 0, p3] = Inr c
          \<and> 0 < c"
    unfolding line_data by (rule chi2_line_unscaled_pos)
qed

theorem fixed_flag_never_reaches_fitter_witness:
  "chi2 (fit_func fa_line) [0, 1, 2, 0] [0, 2, 4, 0] [5 / 100, 5 / 100, 5 / 100, 1 / 2]
      [0, 0, 0, 0] = Inr 2000
   \<and> chi2 (fit_func fa_line) [0, 1, 2, 0] [0, 2, 4, 0] [5 / 100, 5 / 100, 5 / 100, 1 / 2]
      [0, 1, 1, 0] = Inr 0
   \<and> (\<exists>c. chi2 (fit_func fa_line) [0, 1, 2, 0] [0, 2, 4, 0] [5 / 100, 5 / 100, 5 / 100, 1 / 2]
             [3, 1, 0, 7] = Inr c \<and> 0 < c)"
proof -
  have "chi2 (fit_func fa_line) [0, 1, 2, 0] [0, 2, 4, 0] [5 / 100, 5 / 100, 5 / 100, 1 / 2]
      [0, 0, 0, 0] = Inr 2000"
    unfolding chi2_def residuals_def fit_func_line_unscaled by (simp add: bind_err_simps)
  then show ?thesis
    using fixed_flag_never_reaches_fitter [of _ _ _ _ _ _ _ _ 3 1 7] unfolding line_data
    by simp
qed

subsection \<open>The fitting loop on a pair with a narrow overlap\<close>

lemma log10_pow10 [simp]: "log10 (pow10 x) = x"
  by (simp add: log10_def pow10_def)

lemma trim_wide: "trim_top (map pow10 [0, 2, 4]) 0 = Inr 0"
  by (simp add: trim_top.simps [of _ 0] step_small_def f64_eval pow10_def)

lemma trim_narrow: "trim_top (map pow10 [0, 1, 2]) 0 = Inr 0"
  by (simp add: trim_top.simps [of _ 0] step_small_def f64_eval pow10_def)

lemma ds_wide: "depth_scale ''RHOX'' 0 atmo_wide = Inr (0, 3, [0, 2, 4])"
  using trim_wide by (simp add: depth_scale_def atmo_wide_def getvec_def bind_err_simps py_slice_def)

lemma ds_narrow: "depth_scale ''RHOX'' 0 atmo_narrow = Inr (0, 3, [0, 1, 2])"
  using trim_narrow by (simp add: depth_scale_def atmo_narrow_def getvec_def bind_err_simps py_slice_def)

lemma mid_wide: "midpoint [7 / 2, 37 / 10, 39 / 10] 3 = Inr 1"
  by (simp add: midpoint_def py_nth_def np_argmin_def bind_err_simps Let_def)

lemma mid_narrow: "midpoint [18 / 5, 37 / 10, 19 / 5] 3 = Inr 1"
  by (simp add: midpoint_def py_nth_def np_argmin_def bind_err_simps Let_def)

lemma logvec_wide:
  "logvec atmo_wide ''TEMP'' 0 = Inr [7 / 2, 37 / 10, 39 / 10]"
  "logvec atmo_wide ''XNE'' 0 = Inr [11, 12, 13]"
  "logvec atmo_wide ''XNA'' 0 = Inr [15, 16, 17]"
  "logvec atmo_wide ''RHO'' 0 = Inr [-9, -8, -7]"
  "logvec atmo_wide ''RHOX'' 0 = Inr [0, 2, 4]"
  by (simp_all add: logvec_def atmo_wide_def getvec_def bind_err_simps py_slice_def)

lemma logvec_narrow:
  "logvec atmo_narrow ''TEMP'' 0 = Inr [18 / 5, 37 / 10, 19 / 5]"
  "logvec atmo_narrow ''XNE'' 0 = Inr [12, 25 / 2, 13]"
  "logvec atmo_narrow ''XNA'' 0 = Inr [16, 33 / 2, 17]"
  "logvec atmo_narrow ''RHO'' 0 = Inr [-8, - (15 / 2), -7]"
  "logvec atmo_narrow ''RHOX'' 0 = Inr [0, 1, 2]"
  by (simp_all add: logvec_def atmo_narrow_def getvec_def bind_err_simps py_slice_def)

lemma tags_wn:
  "tags atmo_wide = [''TEFF'', ''LOGG'', ''MONH'', ''NDEP'', ''RHOX'', ''TEMP'', ''XNE'', ''XNA'', ''RHO'']"
  "tags atmo_narrow = [''TEFF'', ''LOGG'', ''MONH'', ''NDEP'', ''RHOX'', ''TEMP'', ''XNE'', ''XNA'', ''RHO'']"
  by (simp_all add: tags_def atmo_wide_def atmo_narrow_def)

text \<open>The temperature pass on this pair. The starting point \<open>[1, 0, 0, 0]\<close> moves the second
  temperature curve onto the first with zero residual, so it is a least-squares solution;
  the restricted set for the shift 1 is the single depth point 1. The next pass hands the
  fitter two data points, that point and the constraint point, for four parameters.\<close>

lemma temp_start_fits:
  "fit_func \<lparr>fa_x2 = [0, 1, 2], fa_y2 = [18 / 5, 37 / 10, 19 / 5],
             fa_y1 = [7 / 2, 37 / 10, 39 / 10], fa_ndep = 3, fa_ipar = [1, 0, 0, 0]\<rparr>
     [0, 2, 4, 0] [1, 0, 0, 0] = Inr [7 / 2, 37 / 10, 39 / 10, 0]"
  by (simp add: fit_func_def interp_atmo_func_def interp1d_def searchsorted_def
      Let_def bind_err_simps np_min_def np_max_def)

lemma temp_start_chi2:
  "chi2 (fit_func \<lparr>fa_x2 = [0, 1, 2], fa_y2 = [18 / 5, 37 / 10, 19 / 5],
                   fa_y1 = [7 / 2, 37 / 10, 39 / 10], fa_ndep = 3, fa_ipar = [1, 0, 0, 0]\<rparr>)
      [0, 2, 4, 0] [7 / 2, 37 / 10, 39 / 10, 0] [1 / 20, 1 / 20, 1 / 20, 1 / 2] [1, 0, 0, 0] = Inr 0"
  unfolding chi2_def residuals_def temp_start_fits by (simp add: bind_err_simps)

lemma temp_pass:
  "fit_pass fit_at_start cx_wn st_wn 0 ''TEMP'' =
     Inr \<lparr>st_pars = [[1, 0, 0, 0]], st_ipar = [1, 0, 0, 0], st_igd = [1], st_nfits = 1\<rparr>"
  unfolding fit_pass_def
  by (simp add: cx_wn_def st_wn_def tags_wn logvec_wide logvec_narrow bind_err_simps np_take_def
      interp_atmo_constrained_data constrained_x_def pair_constraints_def fit_at_start_def
      temp_start_fits restrict_points_def np_min_def np_max_def np_where_def Let_def upt_rec)

lemma xne_pass:
  "fit_pass fit_at_start cx_wn
     \<lparr>st_pars = [[1, 0, 0, 0]], st_ipar = [1, 0, 0, 0], st_igd = [1], st_nfits = 1\<rparr> 1 ''XNE'' =
     Inl TypeError"
  unfolding fit_pass_def
  by (simp add: cx_wn_def tags_wn logvec_wide logvec_narrow bind_err_simps np_take_def
      interp_atmo_constrained_data constrained_x_def pair_constraints_def fit_at_start_def
      Let_def)

lemma wn_loop:
  "fit_loop fit_at_start cx_wn st_wn
     [(0, ''TEMP''), (1, ''XNE''), (2, ''XNA''), (3, ''RHO''), (4, ''RHOX'')] = Inl TypeError"
  by (simp add: temp_pass xne_pass [unfolded One_nat_def] bind_err_simps)

subsection \<open>A target metallicity on a grid node\<close>


lemma matching_props:
  assumes "i \<in> set (matching grid T G M)"
  shows "i < length grid \<and> teff (grid ! i) = T \<and> logg (grid ! i) = G \<and> monh (grid ! i) = M"
  using assms by (auto simp: matching_def np_where_def)




lemma fit_pass_counts:
  assumes "fit_pass cf cx st i v = Inr st'"
  shows "st_nfits st' = st_nfits st + 1 \<and> length (st_pars st') = length (st_pars st) + 1"
  using assms unfolding fit_pass_def Let_def
  by (auto simp: bind_err_Inr_iff split: if_splits prod.splits)

lemma fit_loop_counts:
  "fit_loop cf cx st vs = Inr st' \<Longrightarrow>
     st_nfits st' = st_nfits st + length vs \<and> length (st_pars st') = length (st_pars st) + length vs"
proof (induction vs arbitrary: st)
  case Nil
  then show ?case by simp
next
  case (Cons a vs)
  obtain i v where a: "a = (i, v)" by (cases a)
  from Cons.prems a obtain st1 where p: "fit_pass cf cx st i v = Inr st1"
      and l: "fit_loop cf cx st1 vs = Inr st'"
    by (auto simp: bind_err_Inr_iff)
  from fit_pass_counts [OF p] Cons.IH [OF l] show ?case by simp
qed


lemma interp_atmo_pair_fits:
  assumes "interp_atmo_pair cf a1 a2 fr iv itop tr = Inr (krz, n)"
  shows "\<exists>iv'. select_interpvar (tags a1) (tags a2) iv = Inr iv'
           \<and> n = length (vtags_of iv' (''TAU'' \<in> set (tags a1) \<and> ''TAU'' \<in> set (tags a2))
                            (''RHOX'' \<in> set (tags a1) \<and> ''RHOX'' \<in> set (tags a2)))"
proof -
  from assms obtain iv' where iv': "select_interpvar (tags a1) (tags a2) iv = Inr iv'"
    unfolding interp_atmo_pair_def Let_def by (auto simp: bind_err_Inr_iff)
  let ?vt = "vtags_of iv' (''TAU'' \<in> set (tags a1) \<and> ''TAU'' \<in> set (tags a2))
                            (''RHOX'' \<in> set (tags a1) \<and> ''RHOX'' \<in> set (tags a2))"
  from assms iv' obtain cx st0 st where
      "fit_loop cf cx st0 (zip [0..<length ?vt] ?vt) = Inr st" "st_nfits st0 = 0" "n = st_nfits st"
    unfolding interp_atmo_pair_def Let_def
    by (auto simp: bind_err_Inr_iff split: if_splits prod.splits)
  from fit_loop_counts [OF this(1)] this(2,3) have "n = length ?vt" by simp
  with iv' show ?thesis by blast
qed

subsection \<open>Blending a model with itself\<close>

lemma tags_node:
  "tags (node_model t) = [''TEFF'', ''LOGG'', ''MONH'', ''NDEP'', ''RHOX'', ''TEMP'', ''XNE'', ''XNA'', ''RHO'']"
  by (simp add: tags_def node_model_def)

lemma trim_node: "trim_top (map pow10 [-1, 0, 1, 2]) 1 = Inr 1"
  by (simp add: trim_top.simps [of _ "Suc 0"] step_small_def f64_eval pow10_def)

lemma ds_node: "depth_scale ''RHOX'' 1 (node_model t) = Inr (1, 3, [0, 1, 2])"
  using trim_node
  by (simp add: depth_scale_def node_model_def getvec_def bind_err_simps py_slice_def)

lemma logvec_node:
  "logvec (node_model t) ''TEMP'' 1 = Inr [7 / 2, 18 / 5, 37 / 10]"
  "logvec (node_model t) ''XNE'' 1 = Inr [11, 12, 13]"
  "logvec (node_model t) ''XNA'' 1 = Inr [15, 16, 17]"
  "logvec (node_model t) ''RHO'' 1 = Inr [-9, -8, -7]"
  "logvec (node_model t) ''RHOX'' 1 = Inr [0, 1, 2]"
  by (simp_all add: logvec_def node_model_def getvec_def bind_err_simps py_slice_def)

lemma interp1d_line3: "interp1d [0, 1, 2] [b, a + b, 2 * a + b] v = a * v + b"
  using interp1d_line [of "[0, 1, 2]" a b v] by (simp add: mult.commute)

lemma self_fit:
  assumes "y = map (\<lambda>t. a * t + b) [0, 1, 2]" "0 \<le> a"
  shows "interp_atmo_func ([0, 1, 2] @ zs) [0, 0, 0, 0] (Some 3) [0, 1, 2] y (Some y)
           = Inr (y @ replicate (length zs) 0)"
proof -
  have x: "map (\<lambda>x. x + [0, 0, 0, 0 :: real] ! 0) [0, 1, 2 :: real] = [0, 1, 2]" by simp
  have yy: "map (\<lambda>v. v + [0, 0, 0, 0 :: real] ! 1) y = map (\<lambda>t. a * t + b) [0, 1, 2]"
    using assms(1) by simp
  have i: "map (interp1d [0, 1, 2] (map (\<lambda>t. a * t + b) [0, 1, 2])) [0, 1, 2] = [b, a + b, 2 * a + b]"
    using interp1d_line3 [of b a] by (simp add: mult.commute)
  from assms(2) have mn: "np_min [b, a + b, 2 * a + b] = Inr b"
      and mx: "np_max [b, a + b, 2 * a + b] = Inr (2 * a + b)"
    by (simp_all add: np_min_def np_max_def min_def max_def)
  from assms have y3: "y = [b, a + b, 2 * a + b]" by simp
  from assms(2) have clip: "map (\<lambda>v. min (max v b) (2 * a + b)) [b, a + b, 2 * a + b] = [b, a + b, 2 * a + b]"
    by (simp add: min_def max_def)
  show ?thesis
    unfolding interp_atmo_func_def Let_def x yy
    by (simp add: i mn mx y3 clip bind_err_simps del: list.map)
qed

lemma self_blend:
  assumes "y = map (\<lambda>t. a * t + b) [0, 1, 2]" "0 \<le> a"
  shows "interp_atmo_func [0, 1, 2] [0, 0, 0, 0] None [0, 1, 2] y None = Inr y"
proof -
  have x: "map (\<lambda>x. x + [0, 0, 0, 0 :: real] ! 0) [0, 1, 2 :: real] = [0, 1, 2]" by simp
  have yy: "map (\<lambda>v. v + [0, 0, 0, 0 :: real] ! 1) y = map (\<lambda>t. a * t + b) [0, 1, 2]"
    using assms(1) by simp
  have i: "map (interp1d [0, 1, 2] (map (\<lambda>t. a * t + b) [0, 1, 2])) [0, 1, 2] = [b, a + b, 2 * a + b]"
    using interp1d_line3 [of b a] by (simp add: mult.commute)
  from assms(2) have mn: "np_min [b, a + b, 2 * a + b] = Inr b"
      and mx: "np_max [b, a + b, 2 * a + b] = Inr (2 * a + b)"
    by (simp_all add: np_min_def np_max_def min_def max_def)
  from assms have y3: "y = [b, a + b, 2 * a + b]" by simp
  show ?thesis
    unfolding interp_atmo_func_def Let_def x yy
    by (simp add: i mn mx y3 bind_err_simps del: list.map)
qed

lemma node_fit:
  "fit_func \<lparr>fa_x2 = [0, 1, 2], fa_y2 = [7 / 2, 18 / 5, 37 / 10], fa_y1 = [7 / 2, 18 / 5, 37 / 10],
             fa_ndep = 3, fa_ipar = ip\<rparr> [0, 1, 2, 0] [0, 0, 0, 0] = Inr [7 / 2, 18 / 5, 37 / 10, 0]"
  "fit_func \<lparr>fa_x2 = [0, 1, 2], fa_y2 = [11, 12, 13], fa_y1 = [11, 12, 13],
             fa_ndep = 3, fa_ipar = ip\<rparr> [0, 1, 2, 0] [0, 0, 0, 0] = Inr [11, 12, 13, 0]"
  "fit_func \<lparr>fa_x2 = [0, 1, 2], fa_y2 = [15, 16, 17], fa_y1 = [15, 16, 17],
             fa_ndep = 3, fa_ipar = ip\<rparr> [0, 1, 2, 0] [0, 0, 0, 0] = Inr [15, 16, 17, 0]"
  "fit_func \<lparr>fa_x2 = [0, 1, 2], fa_y2 = [-9, -8, -7], fa_y1 = [-9, -8, -7],
             fa_ndep = 3, fa_ipar = ip\<rparr> [0, 1, 2, 0] [0, 0, 0, 0] = Inr [-9, -8, -7, 0]"
  "fit_func \<lparr>fa_x2 = [0, 1, 2], fa_y2 = [0, 1, 2], fa_y1 = [0, 1, 2],
             fa_ndep = 3, fa_ipar = ip\<rparr> [0, 1, 2, 0] [0, 0, 0, 0] = Inr [0, 1, 2, 0]"
  using self_fit [of "[7 / 2, 18 / 5, 37 / 10]" "1 / 10" "7 / 2" "[0]"]
    self_fit [of "[11, 12, 13]" 1 11 "[0]"] self_fit [of "[15, 16, 17]" 1 15 "[0]"]
    self_fit [of "[-9, -8, -7]" 1 "-9" "[0]"] self_fit [of "[0, 1, 2]" 1 0 "[0]"]
  by (simp_all add: fit_func_def)

lemma node_blend:
  "interp_atmo_func [0, 1, 2] [0, 0, 0, 0] None [0, 1, 2] [7 / 2, 18 / 5, 37 / 10] None
     = Inr [7 / 2, 18 / 5, 37 / 10]"
  "interp_atmo_func [0, 1, 2] [0, 0, 0, 0] None [0, 1, 2] [11, 12, 13] None = Inr [11, 12, 13]"
  "interp_atmo_func [0, 1, 2] [0, 0, 0, 0] None [0, 1, 2] [15, 16, 17] None = Inr [15, 16, 17]"
  "interp_atmo_func [0, 1, 2] [0, 0, 0, 0] None [0, 1, 2] [-9, -8, -7] None = Inr [-9, -8, -7]"
  "interp_atmo_func [0, 1, 2] [0, 0, 0, 0] None [0, 1, 2] [0, 1, 2] None = Inr [0, 1, 2]"
  using self_blend [of "[7 / 2, 18 / 5, 37 / 10]" "1 / 10" "7 / 2"]
    self_blend [of "[11, 12, 13]" 1 11] self_blend [of "[15, 16, 17]" 1 15]
    self_blend [of "[-9, -8, -7]" 1 "-9"] self_blend [of "[0, 1, 2]" 1 0]
  by simp_all

lemma node_pass0:
  "fit_pass fit_at_start (cx_node t) (st_node [] 0) 0 ''TEMP'' = Inr (st_node [[0, 0, 0, 0]] 1)"
  unfolding fit_pass_def st_node_def
  by (simp add: cx_node_def tags_node logvec_node [unfolded One_nat_def] bind_err_simps np_take_def
      interp_atmo_constrained_data constrained_x_def pair_constraints_def fit_at_start_def
      node_fit restrict_points_def np_min_def np_max_def np_where_def Let_def upt_rec)

lemma node_pass_rest:
  assumes "vtag \<in> {''XNE'', ''XNA'', ''RHO'', ''RHOX''}" "0 < i"
  shows "fit_pass fit_at_start (cx_node t) (st_node ps n) i vtag =
           Inr (st_node (ps @ [[0, 0, 0, 0]]) (n + 1))"
  using assms unfolding fit_pass_def st_node_def
  by (auto simp add: cx_node_def tags_node logvec_node [unfolded One_nat_def] bind_err_simps np_take_def
      interp_atmo_constrained_data constrained_x_def pair_constraints_def fit_at_start_def
      node_fit Let_def)

lemma node_loop:
  "fit_loop fit_at_start (cx_node t) (st_node [] 0)
     [(0, ''TEMP''), (1, ''XNE''), (2, ''XNA''), (3, ''RHO''), (4, ''RHOX'')] =
     Inr (st_node [[0, 0, 0, 0], [0, 0, 0, 0], [0, 0, 0, 0], [0, 0, 0, 0], [0, 0, 0, 0]] 5)"
  by (simp add: node_pass0 node_pass_rest bind_err_simps eval_nat_numeral)

lemma node_depth:
  "output_depth [[0, 0, 0, 0], [0, 0, 0, 0], [0, 0, 0, 0], [0, 0, 0, 0], [0, 0, 0, 0]] 5 0 3 3
     [0, 1, 2] [0, 1, 2] = Inr [0, 1, 2]"
  by (simp add: output_depth_def Let_def bind_err_simps np_min_def np_max_def)

lemma node_blend_vector:
  assumes "interp_atmo_func [0, 1, 2] [0, 0, 0, 0] None [0, 1, 2] [y0, y1, y2] None = Inr [y0, y1, y2]"
  shows "blend_vector 0 3 3 [0, 1, 2] [0, 1, 2] [0, 1, 2] [0, 0, 0, 0] [y0, y1, y2] [y0, y1, y2]
           = Inr [y0, y1, y2]"
  unfolding blend_vector_def Let_def
  by (simp add: assms bind_err_simps np_min_def np_max_def py_nth_def)

lemma node_blend_loop:
  "blend_loop (node_model t) (node_model t) 1 1 0 3 3 [0, 1, 2] [0, 1, 2] [0, 1, 2]
     [(''TEMP'', [0, 0, 0, 0]), (''XNE'', [0, 0, 0, 0]), (''XNA'', [0, 0, 0, 0]),
      (''RHO'', [0, 0, 0, 0]), (''RHOX'', [0, 0, 0, 0])] =
     Inr [[7 / 2, 18 / 5, 37 / 10], [11, 12, 13], [15, 16, 17], [-9, -8, -7], [0, 1, 2]]"
  by (simp add: logvec_node [unfolded One_nat_def] bind_err_simps node_blend_vector node_blend)

lemma node_build:
  "build_atmo (node_model t) (node_model t) 0 [''TEMP'', ''XNE'', ''XNA'', ''RHO'', ''RHOX'']
     [[7 / 2, 18 / 5, 37 / 10], [11, 12, 13], [15, 16, 17], [-9, -8, -7], [0, 1, 2]] 3 =
     Inr \<lparr>teff = t, logg = 4, monh = 0, ndep = 3,
          vecs = [(''RHOX'', map pow10 [0, 1, 2]), (''TEMP'', map pow10 [7 / 2, 18 / 5, 37 / 10]),
                  (''XNE'', map pow10 [11, 12, 13]), (''XNA'', map pow10 [15, 16, 17]),
                  (''RHO'', map pow10 [-9, -8, -7])],
          others = []\<rparr>"
  by (simp add: build_atmo_def out_vec_def node_model_def getvec_def bind_err_simps stags_def
      vtag_index_def Let_def)

lemma node_select: "select_interpvar (tags (node_model t)) (tags (node_model t)) (Some ''RHOX'') = Inr ''RHOX''"
  by (simp add: select_interpvar_def tags_node)

lemma node_vtags:
  "vtags_of ''RHOX'' (''TAU'' \<in> set (tags (node_model t)) \<and> ''TAU'' \<in> set (tags (node_model t)))
     (''RHOX'' \<in> set (tags (node_model t)) \<and> ''RHOX'' \<in> set (tags (node_model t)))
   = [''TEMP'', ''XNE'', ''XNA'', ''RHO'', ''RHOX'']"
  by (simp add: vtags_of_def tags_node)

lemma node_mid: "midpoint [7 / 2, 18 / 5, 37 / 10] 3 = Inr 1"
  by (simp add: midpoint_def py_nth_def np_argmin_def bind_err_simps Let_def)

lemma node_zip:
  "zip [0..<5] [''TEMP'', ''XNE'', ''XNA'', ''RHO'', ''RHOX''] =
     [(0, ''TEMP''), (1, ''XNE''), (2, ''XNA''), (3, ''RHO''), (4, ''RHOX'')]"
  by (simp add: upt_rec)

lemma interp_atmo_pair_eval:
  assumes "select_interpvar (tags a1) (tags a2) iv = Inr iv'"
    and "depth_scale iv' itop a1 = Inr (itop1, ndep1, depth1)"
    and "depth_scale iv' itop a2 = Inr (itop2, ndep2, depth2)"
    and "0 \<le> ndep1"
    and "vtags_of iv' (''TAU'' \<in> set (tags a1) \<and> ''TAU'' \<in> set (tags a2))
           (''RHOX'' \<in> set (tags a1) \<and> ''RHOX'' \<in> set (tags a2)) = vtags"
    and "logvec a1 ''TEMP'' itop1 = Inr temp1" "logvec a2 ''TEMP'' itop2 = Inr temp2"
    and "midpoint temp1 ndep1 = Inr mid1" "midpoint temp2 ndep2 = Inr mid2"
    and "py_nth depth1 (int mid1) = Inr d1m" "py_nth depth2 (int mid2) = Inr d2m"
    and "py_nth temp1 (int mid1) = Inr t1m" "py_nth temp2 (int mid2) = Inr t2m"
    and "fit_loop cf
           \<lparr>cx_atmo1 = a1, cx_atmo2 = a2, cx_itop1 = itop1, cx_itop2 = itop2,
            cx_depth1 = depth1, cx_depth2 = depth2, cx_err1 = replicate (nat ndep1) (5 / 100),
            cx_ngd = nat ndep1, cx_trace = tr\<rparr>
           \<lparr>st_pars = [], st_ipar = [d1m - d2m, t1m - t2m, 0, 0], st_igd = [0..<nat ndep1],
            st_nfits = 0\<rparr>
           (zip [0..<length vtags] vtags) = Inr st"
    and "output_depth (st_pars st) (length vtags) fr ndep1 ndep2 depth1 depth2 = Inr depth"
    and "blend_loop a1 a2 itop1 itop2 fr ndep1 ndep2 depth1 depth2 depth (zip vtags (st_pars st))
           = Inr vects"
    and "build_atmo a1 a2 fr vtags vects (length depth) = Inr krz"
  shows "interp_atmo_pair cf a1 a2 fr iv itop tr = Inr (krz, st_nfits st)"
  unfolding interp_atmo_pair_def Let_def
  using assms by (simp add: bind_err_simps)

lemma node_pair:
  "interp_atmo_pair fit_at_start (node_model t) (node_model t) 0 (Some ''RHOX'') 1 (- 1)
     = Inr (node_result t, 5)"
proof -
  let ?vt = "[''TEMP'', ''XNE'', ''XNA'', ''RHO'', ''RHOX'']"
  let ?st = "st_node [[0, 0, 0, 0], [0, 0, 0, 0], [0, 0, 0, 0], [0, 0, 0, 0], [0, 0, 0, 0]] 5"
  have py: "py_nth [0, 1, 2 :: real] (int 1) = Inr 1"
      "py_nth [7 / 2, 18 / 5, 37 / 10 :: real] (int 1) = Inr (18 / 5)"
    by (simp_all add: py_nth_def)
  have loop: "fit_loop fit_at_start
           \<lparr>cx_atmo1 = node_model t, cx_atmo2 = node_model t, cx_itop1 = 1, cx_itop2 = 1,
            cx_depth1 = [0, 1, 2], cx_depth2 = [0, 1, 2], cx_err1 = replicate (nat 3) (5 / 100),
            cx_ngd = nat 3, cx_trace = - 1\<rparr>
           \<lparr>st_pars = [], st_ipar = [1 - 1, 18 / 5 - 18 / 5, 0, 0], st_igd = [0..<nat 3],
            st_nfits = 0\<rparr>
           (zip [0..<length ?vt] ?vt) = Inr ?st"
  proof -
    have cx: "\<lparr>cx_atmo1 = node_model t, cx_atmo2 = node_model t, cx_itop1 = 1, cx_itop2 = 1,
            cx_depth1 = [0, 1, 2], cx_depth2 = [0, 1, 2], cx_err1 = replicate (nat 3) (5 / 100),
            cx_ngd = nat 3, cx_trace = - 1\<rparr> = cx_node t"
      by (simp add: cx_node_def)
    have st: "\<lparr>st_pars = [], st_ipar = [1 - 1, 18 / 5 - 18 / 5, 0, 0], st_igd = [0..<nat 3],
            st_nfits = 0\<rparr> = st_node [] 0"
      by (simp add: st_node_def upt_rec)
    have zp: "zip [0..<length ?vt] ?vt = [(0, ''TEMP''), (1, ''XNE''), (2, ''XNA''), (3, ''RHO''), (4, ''RHOX'')]"
      by (simp add: upt_rec)
    show ?thesis unfolding cx st zp by (rule node_loop)
  qed
  have depth: "output_depth (st_pars ?st) (length ?vt) 0 3 3 [0, 1, 2] [0, 1, 2] = Inr [0, 1, 2]"
    using node_depth by (simp add: st_node_def eval_nat_numeral)
  have blend: "blend_loop (node_model t) (node_model t) 1 1 0 3 3 [0, 1, 2] [0, 1, 2] [0, 1, 2]
        (zip ?vt (st_pars ?st))
      = Inr [[7 / 2, 18 / 5, 37 / 10], [11, 12, 13], [15, 16, 17], [-9, -8, -7], [0, 1, 2]]"
    using node_blend_loop [of t] by (simp add: st_node_def)
  have build: "build_atmo (node_model t) (node_model t) 0 ?vt
     [[7 / 2, 18 / 5, 37 / 10], [11, 12, 13], [15, 16, 17], [-9, -8, -7], [0, 1, 2]]
     (length [0, 1, 2 :: real]) = Inr (node_result t)"
    using node_build [of t] by (simp add: node_result_def eval_nat_numeral)
  have "interp_atmo_pair fit_at_start (node_model t) (node_model t) 0 (Some ''RHOX'') 1 (- 1)
     = Inr (node_result t, st_nfits ?st)"
    by (rule interp_atmo_pair_eval [OF node_select ds_node ds_node _ node_vtags
          logvec_node(1) logvec_node(1) node_mid node_mid py(1) py(1) py(2) py(2)
          loop depth blend build]) simp
  then show ?thesis by (simp add: st_node_def)
qed



subsection \<open>What a call of interp\_atmo\_pair that returns has done\<close>

lemma interp_atmo_pair_Inr:
  assumes "interp_atmo_pair cf a1 a2 fr iv itop tr = Inr (krz, n)"
  shows "\<exists>iv' itop1 ndep1 depth1 itop2 ndep2 depth2 temp1 temp2 mid1 mid2 d1m d2m t1m t2m
            st depth vects.
           select_interpvar (tags a1) (tags a2) iv = Inr iv'
         \<and> depth_scale iv' itop a1 = Inr (itop1, ndep1, depth1)
         \<and> depth_scale iv' itop a2 = Inr (itop2, ndep2, depth2)
         \<and> logvec a1 ''TEMP'' itop1 = Inr temp1 \<and> logvec a2 ''TEMP'' itop2 = Inr temp2
         \<and> midpoint temp1 ndep1 = Inr mid1 \<and> midpoint temp2 ndep2 = Inr mid2
         \<and> py_nth depth1 (int mid1) = Inr d1m \<and> py_nth depth2 (int mid2) = Inr d2m
         \<and> py_nth temp1 (int mid1) = Inr t1m \<and> py_nth temp2 (int mid2) = Inr t2m
         \<and> fit_loop cf
              \<lparr>cx_atmo1 = a1, cx_atmo2 = a2, cx_itop1 = itop1, cx_itop2 = itop2,
               cx_depth1 = depth1, cx_depth2 = depth2, cx_err1 = replicate (nat ndep1) (5 / 100),
               cx_ngd = nat ndep1, cx_trace = tr\<rparr>
              \<lparr>st_pars = [], st_ipar = [d1m - d2m, t1m - t2m, 0, 0], st_igd = [0..<nat ndep1],
               st_nfits = 0\<rparr>
              (zip [0..<length (pair_vtags a1 a2 iv')] (pair_vtags a1 a2 iv')) = Inr st
         \<and> output_depth (st_pars st) (length (pair_vtags a1 a2 iv')) fr ndep1 ndep2 depth1 depth2
               = Inr depth
         \<and> blend_loop a1 a2 itop1 itop2 fr ndep1 ndep2 depth1 depth2 depth
              (zip (pair_vtags a1 a2 iv') (st_pars st)) = Inr vects
         \<and> build_atmo a1 a2 fr (pair_vtags a1 a2 iv') vects (length depth) = Inr krz
         \<and> n = st_nfits st \<and> 0 \<le> ndep1"
  using assms unfolding interp_atmo_pair_def Let_def pair_vtags_def
  by (clarsimp simp: bind_err_Inr_iff split: if_splits prod.splits)

lemma pair_vtags_zip:
  "\<exists>rest. zip [0..<length (pair_vtags a1 a2 iv')] (pair_vtags a1 a2 iv')
            = (0, ''TEMP'') # (1, ''XNE'') # rest"
  by (simp add: pair_vtags_def vtags_of_def upt_rec)

lemma np_take_length: "np_take v idx = Inr xs \<Longrightarrow> length xs = length idx"
  by (auto simp: np_take_def split: if_splits)

lemma fit_pass_Inr:
  assumes "fit_pass cf cx st i v = Inr st'"
  shows "\<exists>fa x_in y_in err_in popt.
           np_take (cx_depth1 cx) (st_igd st) = Inr x_in
         \<and> cf (fit_func fa) (constrained_x x_in pair_constraints) (constrained_y y_in pair_constraints)
              (constrained_err err_in pair_constraints) (st_ipar st) = Inr popt
         \<and> length popt = 4
         \<and> st_pars st' = st_pars st @ [popt]
         \<and> st_nfits st' = st_nfits st + 1
         \<and> (if i = 0
              then restrict_points (cx_depth1 cx) (cx_depth2 cx) (popt ! 0) (cx_ngd cx)
                     = Inr (st_ipar st', st_igd st')
              else st_ipar st' = st_ipar st \<and> st_igd st' = st_igd st)"
  using assms unfolding fit_pass_def Let_def interp_atmo_constrained_data
  apply (clarsimp simp: bind_err_Inr_iff split: if_splits prod.splits)
   apply blast
  apply blast
  done

subsection \<open>The valid points after the temperature pass\<close>

lemma restrict_points_Inr:
  assumes "restrict_points depth1 depth2 shift ngd = Inr (ipar', igd')"
  shows "ipar' = [shift, 0, 0, 0]
       \<and> igd' = np_where (\<lambda>d. Min (set depth2) + shift \<le> d \<and> d \<le> Max (set depth2) + shift) depth1"
  using assms
  by (auto simp: restrict_points_def np_min_def np_max_def bind_err_Inr_iff Let_def
      split: if_splits)

lemma fit_pass_few_points:
  assumes "lm_rule cf" "length (st_igd st) < 2" "length (st_ipar st) = 4"
  shows "\<exists>e. fit_pass cf cx st i v = Inl e"
proof (cases "fit_pass cf cx st i v")
  case (Inl e)
  then show ?thesis by blast
next
  case (Inr st')
  from fit_pass_Inr [OF Inr] obtain fa x_in y_in err_in popt where
      t: "np_take (cx_depth1 cx) (st_igd st) = Inr x_in"
      and c: "cf (fit_func fa) (constrained_x x_in pair_constraints)
                (constrained_y y_in pair_constraints) (constrained_err err_in pair_constraints)
                (st_ipar st) = Inr popt"
    by blast
  from np_take_length [OF t] assms(2,3)
  have "length (constrained_x x_in pair_constraints) < length (st_ipar st)"
    by (simp add: constrained_x_def pair_constraints_def)
  with assms(1) obtain e where
    "cf (fit_func fa) (constrained_x x_in pair_constraints)
       (constrained_y y_in pair_constraints) (constrained_err err_in pair_constraints)
       (st_ipar st) = Inl e"
    unfolding lm_rule_def by blast
  with c show ?thesis by simp
qed



lemma interp_atmo_pair_eval_err:
  assumes "select_interpvar (tags a1) (tags a2) iv = Inr iv'"
    and "depth_scale iv' itop a1 = Inr (itop1, ndep1, depth1)"
    and "depth_scale iv' itop a2 = Inr (itop2, ndep2, depth2)"
    and "0 \<le> ndep1"
    and "vtags_of iv' (''TAU'' \<in> set (tags a1) \<and> ''TAU'' \<in> set (tags a2))
           (''RHOX'' \<in> set (tags a1) \<and> ''RHOX'' \<in> set (tags a2)) = vtags"
    and "logvec a1 ''TEMP'' itop1 = Inr temp1" "logvec a2 ''TEMP'' itop2 = Inr temp2"
    and "midpoint temp1 ndep1 = Inr mid1" "midpoint temp2 ndep2 = Inr mid2"
    and "py_nth depth1 (int mid1) = Inr d1m" "py_nth depth2 (int mid2) = Inr d2m"
    and "py_nth temp1 (int mid1) = Inr t1m" "py_nth temp2 (int mid2) = Inr t2m"
    and "fit_loop cf
           \<lparr>cx_atmo1 = a1, cx_atmo2 = a2, cx_itop1 = itop1, cx_itop2 = itop2,
            cx_depth1 = depth1, cx_depth2 = depth2, cx_err1 = replicate (nat ndep1) (5 / 100),
            cx_ngd = nat ndep1, cx_trace = tr\<rparr>
           \<lparr>st_pars = [], st_ipar = [d1m - d2m, t1m - t2m, 0, 0], st_igd = [0..<nat ndep1],
            st_nfits = 0\<rparr>
           (zip [0..<length vtags] vtags) = Inl e"
  shows "interp_atmo_pair cf a1 a2 fr iv itop tr = Inl e"
  unfolding interp_atmo_pair_def Let_def
  using assms by (simp add: bind_err_simps)

lemma first_pass_restricts:
  assumes "fit_pass cf cx st0 0 vtag = Inr st1"
  shows "\<exists>shift. shift = last (st_pars st1) ! 0 \<and> st_ipar st1 = [shift, 0, 0, 0]
           \<and> st_igd st1 = np_where (\<lambda>d. Min (set (cx_depth2 cx)) + shift \<le> d
                                        \<and> d \<le> Max (set (cx_depth2 cx)) + shift) (cx_depth1 cx)"
proof -
  from fit_pass_Inr [OF assms] obtain popt where
      p: "st_pars st1 = st_pars st0 @ [popt]"
      and r: "restrict_points (cx_depth1 cx) (cx_depth2 cx) (popt ! 0) (cx_ngd cx)
                = Inr (st_ipar st1, st_igd st1)"
    by auto
  from p have "last (st_pars st1) = popt" by simp
  with restrict_points_Inr [OF r] show ?thesis by simp
qed

lemma second_pass_fails:
  assumes "lm_rule cf" "fit_pass cf cx st0 0 vtag = Inr st1" "length (st_igd st1) < 2"
  shows "\<exists>e. fit_pass cf cx st1 i v = Inl e"
proof -
  from first_pass_restricts [OF assms(2)] have "length (st_ipar st1) = 4" by auto
  from fit_pass_few_points [OF assms(1,3) this] show ?thesis .
qed

lemma wn_select:
  "select_interpvar (tags atmo_wide) (tags atmo_narrow) (Some ''RHOX'') = Inr ''RHOX''"
  by (simp add: select_interpvar_def tags_wn)

lemma wn_vtags:
  "vtags_of ''RHOX'' (''TAU'' \<in> set (tags atmo_wide) \<and> ''TAU'' \<in> set (tags atmo_narrow))
     (''RHOX'' \<in> set (tags atmo_wide) \<and> ''RHOX'' \<in> set (tags atmo_narrow))
   = [''TEMP'', ''XNE'', ''XNA'', ''RHO'', ''RHOX'']"
  by (simp add: vtags_of_def tags_wn)

lemma wn_pair:
  "interp_atmo_pair fit_at_start atmo_wide atmo_narrow fr (Some ''RHOX'') 0 0 = Inl TypeError"
proof -
  let ?vt = "[''TEMP'', ''XNE'', ''XNA'', ''RHO'', ''RHOX'']"
  have py: "py_nth [0, 2, 4 :: real] (int 1) = Inr 2" "py_nth [0, 1, 2 :: real] (int 1) = Inr 1"
      "py_nth [7 / 2, 37 / 10, 39 / 10 :: real] (int 1) = Inr (37 / 10)"
      "py_nth [18 / 5, 37 / 10, 19 / 5 :: real] (int 1) = Inr (37 / 10)"
    by (simp_all add: py_nth_def)
  have loop: "fit_loop fit_at_start
           \<lparr>cx_atmo1 = atmo_wide, cx_atmo2 = atmo_narrow, cx_itop1 = 0, cx_itop2 = 0,
            cx_depth1 = [0, 2, 4], cx_depth2 = [0, 1, 2], cx_err1 = replicate (nat 3) (5 / 100),
            cx_ngd = nat 3, cx_trace = 0\<rparr>
           \<lparr>st_pars = [], st_ipar = [2 - 1, 37 / 10 - 37 / 10, 0, 0], st_igd = [0..<nat 3],
            st_nfits = 0\<rparr>
           (zip [0..<length ?vt] ?vt) = Inl TypeError"
  proof -
    have cx: "\<lparr>cx_atmo1 = atmo_wide, cx_atmo2 = atmo_narrow, cx_itop1 = 0, cx_itop2 = 0,
            cx_depth1 = [0, 2, 4], cx_depth2 = [0, 1, 2], cx_err1 = replicate (nat 3) (5 / 100),
            cx_ngd = nat 3, cx_trace = 0\<rparr> = cx_wn"
      by (simp add: cx_wn_def)
    have st: "\<lparr>st_pars = [], st_ipar = [2 - 1, 37 / 10 - 37 / 10, 0, 0], st_igd = [0..<nat 3],
            st_nfits = 0\<rparr> = st_wn"
      by (simp add: st_wn_def upt_rec)
    have zp: "zip [0..<length ?vt] ?vt = [(0, ''TEMP''), (1, ''XNE''), (2, ''XNA''), (3, ''RHO''), (4, ''RHOX'')]"
      by (simp add: upt_rec)
    show ?thesis unfolding cx st zp by (rule wn_loop)
  qed
  show ?thesis
    by (rule interp_atmo_pair_eval_err [OF wn_select ds_wide ds_narrow _ wn_vtags
          logvec_wide(1) logvec_narrow(1) mid_wide mid_narrow py(1) py(2) py(3) py(4) loop]) simp
qed

text \<open>
  C4. After the temperature pass (the first pass of the fitting loop) the valid points are
  the depth points of the first profile that lie in the range of the second profile's
  depth scale moved by the fitted horizontal shift. The size test of lines 262--264 reads
  \<^verbatim>\<open>ngd\<close>, not the size \<^verbatim>\<open>ndg\<close> of the restricted set, and does not stop the loop; but the
  next pass hands the fitter the restricted points and one constraint point, and with
  fewer than two restricted points these are fewer data points than the four parameters:
  the fitter raises, no further quantity is fitted and the call ends in that error. A call
  of \<^verbatim>\<open>interp_atmo_pair\<close> that returns had at least two valid points after its
  temperature pass.
\<close>

theorem sub_two_point_set_is_fatal:
  assumes "lm_rule cf"
  shows "(fit_pass cf cx st0 0 vtag = Inr st1 \<longrightarrow>
            (\<exists>shift. shift = last (st_pars st1) ! 0 \<and> st_ipar st1 = [shift, 0, 0, 0]
               \<and> st_igd st1 = np_where (\<lambda>d. Min (set (cx_depth2 cx)) + shift \<le> d
                                            \<and> d \<le> Max (set (cx_depth2 cx)) + shift) (cx_depth1 cx))
            \<and> (length (st_igd st1) < 2 \<longrightarrow>
                 (\<exists>e. fit_pass cf cx st1 i v = Inl e)
                 \<and> (\<exists>e. fit_loop cf cx st0 ((0, vtag) # (i, v) # rest) = Inl e)))
       \<and> (interp_atmo_pair cf a1 a2 fr iv itop tr = Inr (krz, n) \<longrightarrow>
            (\<exists>iv' itop1 ndep1 depth1 itop2 ndep2 depth2 temp1 temp2 mid1 mid2 d1m d2m t1m t2m st1.
                 select_interpvar (tags a1) (tags a2) iv = Inr iv'
               \<and> depth_scale iv' itop a1 = Inr (itop1, ndep1, depth1)
               \<and> depth_scale iv' itop a2 = Inr (itop2, ndep2, depth2)
               \<and> logvec a1 ''TEMP'' itop1 = Inr temp1 \<and> logvec a2 ''TEMP'' itop2 = Inr temp2
               \<and> midpoint temp1 ndep1 = Inr mid1 \<and> midpoint temp2 ndep2 = Inr mid2
               \<and> py_nth depth1 (int mid1) = Inr d1m \<and> py_nth depth2 (int mid2) = Inr d2m
               \<and> py_nth temp1 (int mid1) = Inr t1m \<and> py_nth temp2 (int mid2) = Inr t2m
               \<and> fit_pass cf
                    \<lparr>cx_atmo1 = a1, cx_atmo2 = a2, cx_itop1 = itop1, cx_itop2 = itop2,
                     cx_depth1 = depth1, cx_depth2 = depth2,
                     cx_err1 = replicate (nat ndep1) (5 / 100), cx_ngd = nat ndep1, cx_trace = tr\<rparr>
                    \<lparr>st_pars = [], st_ipar = [d1m - d2m, t1m - t2m, 0, 0],
                     st_igd = [0..<nat ndep1], st_nfits = 0\<rparr>
                    0 ''TEMP'' = Inr st1
               \<and> 2 \<le> length (st_igd st1)))"
proof (intro conjI impI)
  assume p: "fit_pass cf cx st0 0 vtag = Inr st1"
  from first_pass_restricts [OF p]
  show "\<exists>shift. shift = last (st_pars st1) ! 0 \<and> st_ipar st1 = [shift, 0, 0, 0]
               \<and> st_igd st1 = np_where (\<lambda>d. Min (set (cx_depth2 cx)) + shift \<le> d
                                            \<and> d \<le> Max (set (cx_depth2 cx)) + shift) (cx_depth1 cx)" .
  assume few: "length (st_igd st1) < 2"
  from second_pass_fails [OF assms p few] obtain e where e: "fit_pass cf cx st1 i v = Inl e"
    by blast
  then show "\<exists>e. fit_pass cf cx st1 i v = Inl e" by blast
  from p e have "fit_loop cf cx st0 ((0, vtag) # (i, v) # rest) = Inl e"
    by (simp add: bind_err_simps)
  then show "\<exists>e. fit_loop cf cx st0 ((0, vtag) # (i, v) # rest) = Inl e" by blast
next
  assume r: "interp_atmo_pair cf a1 a2 fr iv itop tr = Inr (krz, n)"
  from interp_atmo_pair_Inr [OF r] obtain iv' itop1 ndep1 depth1 itop2 ndep2 depth2
      temp1 temp2 mid1 mid2 d1m d2m t1m t2m st
    where s: "select_interpvar (tags a1) (tags a2) iv = Inr iv'"
      and d1: "depth_scale iv' itop a1 = Inr (itop1, ndep1, depth1)"
      and d2: "depth_scale iv' itop a2 = Inr (itop2, ndep2, depth2)"
      and m: "logvec a1 ''TEMP'' itop1 = Inr temp1" "logvec a2 ''TEMP'' itop2 = Inr temp2"
        "midpoint temp1 ndep1 = Inr mid1" "midpoint temp2 ndep2 = Inr mid2"
        "py_nth depth1 (int mid1) = Inr d1m" "py_nth depth2 (int mid2) = Inr d2m"
        "py_nth temp1 (int mid1) = Inr t1m" "py_nth temp2 (int mid2) = Inr t2m"
      and l: "fit_loop cf
              \<lparr>cx_atmo1 = a1, cx_atmo2 = a2, cx_itop1 = itop1, cx_itop2 = itop2,
               cx_depth1 = depth1, cx_depth2 = depth2, cx_err1 = replicate (nat ndep1) (5 / 100),
               cx_ngd = nat ndep1, cx_trace = tr\<rparr>
              \<lparr>st_pars = [], st_ipar = [d1m - d2m, t1m - t2m, 0, 0], st_igd = [0..<nat ndep1],
               st_nfits = 0\<rparr>
              (zip [0..<length (pair_vtags a1 a2 iv')] (pair_vtags a1 a2 iv')) = Inr st"
    by blast
  let ?cx = "\<lparr>cx_atmo1 = a1, cx_atmo2 = a2, cx_itop1 = itop1, cx_itop2 = itop2,
               cx_depth1 = depth1, cx_depth2 = depth2, cx_err1 = replicate (nat ndep1) (5 / 100),
               cx_ngd = nat ndep1, cx_trace = tr\<rparr>"
  let ?st0 = "\<lparr>st_pars = [], st_ipar = [d1m - d2m, t1m - t2m, 0, 0], st_igd = [0..<nat ndep1],
               st_nfits = 0\<rparr>"
  from pair_vtags_zip [of a1 a2 iv'] obtain rest where
    z: "zip [0..<length (pair_vtags a1 a2 iv')] (pair_vtags a1 a2 iv') = (0, ''TEMP'') # (1, ''XNE'') # rest"
    by blast
  from l [unfolded z] obtain st1 st2 where p1: "fit_pass cf ?cx ?st0 0 ''TEMP'' = Inr st1"
      and p2: "fit_pass cf ?cx st1 1 ''XNE'' = Inr st2"
    by (auto simp: bind_err_Inr_iff)
  have "2 \<le> length (st_igd st1)"
  proof (rule ccontr)
    assume "\<not> 2 \<le> length (st_igd st1)"
    then have "length (st_igd st1) < 2" by simp
    from second_pass_fails [OF assms p1 this, of 1 "''XNE''"] p2 show False by simp
  qed
  with s d1 d2 m p1
  show "\<exists>iv' itop1 ndep1 depth1 itop2 ndep2 depth2 temp1 temp2 mid1 mid2 d1m d2m t1m t2m st1.
                 select_interpvar (tags a1) (tags a2) iv = Inr iv'
               \<and> depth_scale iv' itop a1 = Inr (itop1, ndep1, depth1)
               \<and> depth_scale iv' itop a2 = Inr (itop2, ndep2, depth2)
               \<and> logvec a1 ''TEMP'' itop1 = Inr temp1 \<and> logvec a2 ''TEMP'' itop2 = Inr temp2
               \<and> midpoint temp1 ndep1 = Inr mid1 \<and> midpoint temp2 ndep2 = Inr mid2
               \<and> py_nth depth1 (int mid1) = Inr d1m \<and> py_nth depth2 (int mid2) = Inr d2m
               \<and> py_nth temp1 (int mid1) = Inr t1m \<and> py_nth temp2 (int mid2) = Inr t2m
               \<and> fit_pass cf
                    \<lparr>cx_atmo1 = a1, cx_atmo2 = a2, cx_itop1 = itop1, cx_itop2 = itop2,
                     cx_depth1 = depth1, cx_depth2 = depth2,
                     cx_err1 = replicate (nat ndep1) (5 / 100), cx_ngd = nat ndep1, cx_trace = tr\<rparr>
                    \<lparr>st_pars = [], st_ipar = [d1m - d2m, t1m - t2m, 0, 0],
                     st_igd = [0..<nat ndep1], st_nfits = 0\<rparr>
                    0 ''TEMP'' = Inr st1
               \<and> 2 \<le> length (st_igd st1)"
    by blast
qed

lemma fit_at_start_lm_rule: "lm_rule fit_at_start"
  by (simp add: lm_rule_def fit_at_start_def)

theorem sub_two_point_set_is_fatal_witness:
  "fit_pass fit_at_start cx_wn st_wn 0 ''TEMP'' =
     Inr \<lparr>st_pars = [[1, 0, 0, 0]], st_ipar = [1, 0, 0, 0], st_igd = [1], st_nfits = 1\<rparr>
   \<and> (\<exists>e. fit_pass fit_at_start cx_wn
            \<lparr>st_pars = [[1, 0, 0, 0]], st_ipar = [1, 0, 0, 0], st_igd = [1], st_nfits = 1\<rparr>
            1 ''XNE'' = Inl e)
   \<and> (\<exists>e. fit_loop fit_at_start cx_wn st_wn
            [(0, ''TEMP''), (1, ''XNE''), (2, ''XNA''), (3, ''RHO''), (4, ''RHOX'')] = Inl e)
   \<and> interp_atmo_pair fit_at_start atmo_wide atmo_narrow (1 / 2) (Some ''RHOX'') 0 0 = Inl TypeError
   \<and> interp_atmo_pair fit_at_start (node_model 5000) (node_model 5000) 0 (Some ''RHOX'') 1 (- 1)
       = Inr (node_result 5000, 5)
   \<and> (\<exists>st1. fit_pass fit_at_start (cx_node 5000) (st_node [] 0) 0 ''TEMP'' = Inr st1
          \<and> 2 \<le> length (st_igd st1))"
proof -
  note T = sub_two_point_set_is_fatal [OF fit_at_start_lm_rule]
  let ?s1 = "\<lparr>st_pars = [[1, 0, 0, 0]], st_ipar = [1, 0, 0, 0], st_igd = [1], st_nfits = 1\<rparr>"
  have few: "length (st_igd ?s1) < 2" by simp
  from T [of cx_wn st_wn "''TEMP''" ?s1 1 "''XNE''" "[(2, ''XNA''), (3, ''RHO''), (4, ''RHOX'')]"]
    temp_pass few
  have A: "(\<exists>e. fit_pass fit_at_start cx_wn ?s1 1 ''XNE'' = Inl e)
         \<and> (\<exists>e. fit_loop fit_at_start cx_wn st_wn
              [(0, ''TEMP''), (1, ''XNE''), (2, ''XNA''), (3, ''RHO''), (4, ''RHOX'')] = Inl e)"
    by blast
  note N = T [of _ _ _ _ _ _ _ "node_model 5000" "node_model 5000" 0 "Some ''RHOX''" 1 "- 1"
               "node_result 5000" 5, THEN conjunct2, THEN mp, OF node_pair [of 5000]]
  from N obtain iv' itop1 ndep1 depth1 itop2 ndep2 depth2 temp1 temp2 mid1 mid2 d1m d2m t1m t2m st1
    where s: "select_interpvar (tags (node_model 5000)) (tags (node_model 5000)) (Some ''RHOX'') = Inr iv'"
      and d1: "depth_scale iv' 1 (node_model 5000) = Inr (itop1, ndep1, depth1)"
      and d2: "depth_scale iv' 1 (node_model 5000) = Inr (itop2, ndep2, depth2)"
      and m: "logvec (node_model 5000) ''TEMP'' itop1 = Inr temp1"
        "logvec (node_model 5000) ''TEMP'' itop2 = Inr temp2"
        "midpoint temp1 ndep1 = Inr mid1" "midpoint temp2 ndep2 = Inr mid2"
        "py_nth depth1 (int mid1) = Inr d1m" "py_nth depth2 (int mid2) = Inr d2m"
        "py_nth temp1 (int mid1) = Inr t1m" "py_nth temp2 (int mid2) = Inr t2m"
      and p: "fit_pass fit_at_start
            \<lparr>cx_atmo1 = node_model 5000, cx_atmo2 = node_model 5000, cx_itop1 = itop1,
             cx_itop2 = itop2, cx_depth1 = depth1, cx_depth2 = depth2,
             cx_err1 = replicate (nat ndep1) (5 / 100), cx_ngd = nat ndep1, cx_trace = - 1\<rparr>
            \<lparr>st_pars = [], st_ipar = [d1m - d2m, t1m - t2m, 0, 0], st_igd = [0..<nat ndep1],
             st_nfits = 0\<rparr>
            0 ''TEMP'' = Inr st1"
      and g: "2 \<le> length (st_igd st1)"
    by (elim exE conjE) (rule that)
  from s node_select [of 5000] have iv': "iv' = ''RHOX''" by simp
  from d1 d2 ds_node [of 5000] iv'
  have ds: "itop1 = 1" "ndep1 = 3" "depth1 = [0, 1, 2]" "itop2 = 1" "depth2 = [0, 1, 2]" "ndep2 = 3"
    by simp_all
  from m(1,2) logvec_node(1) [of 5000] ds
  have t: "temp1 = [7 / 2, 18 / 5, 37 / 10]" "temp2 = [7 / 2, 18 / 5, 37 / 10]" by simp_all
  from m(3,4) node_mid t ds have mid: "mid1 = 1" "mid2 = 1" by simp_all
  from m(5-8) ds t mid have "d1m - d2m = 0" "t1m - t2m = 0" by (simp_all add: py_nth_def)
  with p ds have "fit_pass fit_at_start (cx_node 5000) (st_node [] 0) 0 ''TEMP'' = Inr st1"
    by (simp add: cx_node_def st_node_def upt_rec numeral_2_eq_2)
  with g have B: "\<exists>st1. fit_pass fit_at_start (cx_node 5000) (st_node [] 0) 0 ''TEMP'' = Inr st1
          \<and> 2 \<le> length (st_igd st1)"
    by blast
  from A B temp_pass wn_pair [of "1 / 2"] node_pair [of 5000] show ?thesis by blast
qed

subsection \<open>The metallicity pair of a grid node\<close>






end
